theory Spec2Isabelle
  imports Complex_Main
begin

section \<open>Values, messages and the skill object\<close>

text \<open>
  Python values that travel in message payloads. A dict is a finite map from string keys;
  the action records of \<^verbatim>\<open>_build_actions\<close> are such dicts, keyed by \<^verbatim>\<open>"type"\<close>.
  A float is only carried (\<^verbatim>\<open>message_delay\<close>), never computed with.
\<close>

datatype pyval =
    PNone
  | PBool bool
  | PInt int
  | PFloat real
  | PStr string
  | PList "pyval list"
  | PDict "string \<Rightarrow> pyval option"

type_synonym dict = "string \<Rightarrow> pyval option"

text \<open>\<^verbatim>\<open>d.get(k)\<close>: the value under \<open>k\<close>, or \<^verbatim>\<open>None\<close> when the key is missing.\<close>

definition dict_get :: "dict \<Rightarrow> string \<Rightarrow> pyval" where
  "dict_get d k = (case d k of None \<Rightarrow> PNone | Some v \<Rightarrow> v)"

text \<open>\<^verbatim>\<open>mycroft.messagebus.message.Message\<close>: a type and a data dict.\<close>

record message =
  msg_type :: string
  data :: dict

text \<open>Exceptions (subclasses of \<^verbatim>\<open>Exception\<close>) as values.\<close>

datatype error = TypeError | AttributeError | Exception string

datatype GuiClear = AUTO | ON_IDLE | NEVER | AT_START | AT_END

datatype MessageSend = SEND_AT_START | SEND_AT_END

text \<open>
  \<^verbatim>\<open>SessionDialogType\<close> and \<^verbatim>\<open>SessionGuiType\<close>: a bare name, or a (name, data) tuple;
  \<^verbatim>\<open>SessionDialogsType\<close>: one such item, or a sequence of them.
\<close>

datatype item = Name string | WithData string pyval

datatype items = Single item | Sequence "item list"

text \<open>
  The fields of \<^verbatim>\<open>MycroftSkill\<close> that the session code reads and writes. The bus is the
  list of messages emitted so far (\<^verbatim>\<open>self.bus.emit\<close> appends); \<open>uuid_count\<close> counts the
  calls of \<^verbatim>\<open>uuid4()\<close>.
\<close>

record skill =
  skill_id :: string
  name :: string
  lang :: string
  mycroft_session_id :: pyval
  bus :: "message list"
  uuid_count :: nat

text \<open>
  The collaborators outside the file: the file system behind \<^verbatim>\<open>_find_resource\<close>, the dialog
  renderer (which may raise), the core configuration's \<^verbatim>\<open>"sounds"\<close> entry,
  \<^verbatim>\<open>resolve_resource_file\<close>, \<^verbatim>\<open>camel_case_split\<close>, \<^verbatim>\<open>unmunge_message\<close> and \<^verbatim>\<open>uuid4\<close>.
\<close>

record env =
  find_resource_in :: "string \<Rightarrow> string \<Rightarrow> string \<Rightarrow> string option"
  render :: "string \<Rightarrow> pyval \<Rightarrow> error + string"
  config_sounds :: "(string \<Rightarrow> string option) option"
  resolve_resource_file :: "string \<Rightarrow> string option"
  camel_case_split :: "string \<Rightarrow> string"
  unmunge_message :: "message \<Rightarrow> string \<Rightarrow> message"
  uuid4 :: "nat \<Rightarrow> string"

text \<open>The keyword arguments shared by the session builders, with Python's defaults.\<close>

record session_args =
  dialog :: "items option"
  speak :: "string option"
  speak_wait :: bool
  gui :: "items option"
  gui_clear :: GuiClear
  audio_alert :: "string option"
  music_uri :: "string option"
  message :: "message option"
  message_send :: MessageSend
  message_delay :: real

definition default_args :: session_args where
  "default_args = \<lparr> dialog = None, speak = None, speak_wait = True, gui = None,
     gui_clear = AUTO, audio_alert = None, music_uri = None, message = None,
     message_send = SEND_AT_START, message_delay = 0 \<rparr>"

text \<open>Truth value of an optional string: \<^verbatim>\<open>None\<close> and \<^verbatim>\<open>""\<close> are false.\<close>

definition truthy :: "string option \<Rightarrow> bool" where
  "truthy x = (case x of None \<Rightarrow> False | Some u \<Rightarrow> u \<noteq> [])"

section \<open>Resource lookup\<close>

text \<open>
  \<^verbatim>\<open>find_resource\<close>: look the name up for the skill's language, and fall back to
  \<^verbatim>\<open>en-us\<close> when nothing was found and the language is another one.
\<close>

definition find_resource :: "env \<Rightarrow> skill \<Rightarrow> string \<Rightarrow> string \<Rightarrow> string option" where
  "find_resource e s res_name res_dirname =
     (let result = find_resource_in e res_name (lang s) res_dirname
      in if \<not> truthy result \<and> lang s \<noteq> ''en-us''
         then find_resource_in e res_name ''en-us'' res_dirname
         else result)"

section \<open>The action compiler\<close>

text \<open>The action dicts, as \<^verbatim>\<open>_build_actions\<close> writes them.\<close>

definition message_action_at_start :: "skill \<Rightarrow> message \<Rightarrow> pyval" where
  "message_action_at_start s m = PDict [
     ''type'' \<mapsto> PStr ''message'',
     ''message_type'' \<mapsto> PStr (msg_type m),
     ''data'' \<mapsto> PDict ([''mycroft_session_id'' \<mapsto> mycroft_session_id s] ++ data m)]"

definition message_action_at_end :: "skill \<Rightarrow> message \<Rightarrow> real \<Rightarrow> pyval" where
  "message_action_at_end s m delay = PDict [
     ''type'' \<mapsto> PStr ''message'',
     ''message_type'' \<mapsto> PStr (msg_type m),
     ''delay'' \<mapsto> PFloat delay,
     ''data'' \<mapsto> PDict ([''mycroft_session_id'' \<mapsto> mycroft_session_id s] ++ data m)]"

definition clear_display_action :: pyval where
  "clear_display_action = PDict [''type'' \<mapsto> PStr ''clear_display'']"

definition audio_alert_action :: "string \<Rightarrow> pyval" where
  "audio_alert_action uri = PDict [
     ''type'' \<mapsto> PStr ''audio_alert'', ''uri'' \<mapsto> PStr uri, ''wait'' \<mapsto> PBool True]"

definition show_page_action :: "skill \<Rightarrow> string \<Rightarrow> string \<Rightarrow> pyval \<Rightarrow> pyval" where
  "show_page_action s path gui_page gui_data = PDict [
     ''type'' \<mapsto> PStr ''show_page'',
     ''page'' \<mapsto> PStr (''file://'' @ path),
     ''data'' \<mapsto> gui_data,
     ''namespace'' \<mapsto> PStr (skill_id s @ ''.'' @ gui_page)]"

definition speak_dialog_action :: "string \<Rightarrow> string \<Rightarrow> bool \<Rightarrow> pyval" where
  "speak_dialog_action utterance dialog_name wait = PDict [
     ''type'' \<mapsto> PStr ''speak'',
     ''utterance'' \<mapsto> PStr utterance,
     ''dialog'' \<mapsto> PStr dialog_name,
     ''wait'' \<mapsto> PBool wait]"

definition speak_action :: "string \<Rightarrow> bool \<Rightarrow> pyval" where
  "speak_action utterance wait = PDict [
     ''type'' \<mapsto> PStr ''speak'', ''utterance'' \<mapsto> PStr utterance, ''wait'' \<mapsto> PBool wait]"

definition stream_music_action :: "string \<Rightarrow> pyval" where
  "stream_music_action uri = PDict [''type'' \<mapsto> PStr ''stream_music'', ''uri'' \<mapsto> PStr uri]"

definition get_response_action :: pyval where
  "get_response_action = PDict [''type'' \<mapsto> PStr ''get_response'']"

definition wait_for_idle_action :: pyval where
  "wait_for_idle_action = PDict [''type'' \<mapsto> PStr ''wait_for_idle'']"

text \<open>The \<^verbatim>\<open>"type"\<close> entry of an action, and the test that an action has a given type.\<close>

definition action_type :: "pyval \<Rightarrow> pyval" where
  "action_type a = (case a of PDict d \<Rightarrow> dict_get d ''type'' | _ \<Rightarrow> PNone)"

definition has_type :: "string \<Rightarrow> pyval \<Rightarrow> bool" where
  "has_type t a = (action_type a = PStr t)"

text \<open>\<^verbatim>\<open>itertools.zip_longest\<close>: pair positionally, padding the shorter list with \<^verbatim>\<open>None\<close>.\<close>

fun zip_longest :: "'a list \<Rightarrow> 'b list \<Rightarrow> ('a option \<times> 'b option) list" where
  "zip_longest [] [] = []"
| "zip_longest (x # xs) [] = (Some x, None) # zip_longest xs []"
| "zip_longest [] (y # ys) = (None, Some y) # zip_longest [] ys"
| "zip_longest (x # xs) (y # ys) = (Some x, Some y) # zip_longest xs ys"

text \<open>
  The first half of the loop body: a \<^verbatim>\<open>show_page\<close> action for the GUI item, if there is
  one. \<^verbatim>\<open>"file://" + None\<close> raises \<^verbatim>\<open>TypeError\<close> when the page is not found.
\<close>

definition show_gui :: "env \<Rightarrow> skill \<Rightarrow> item option \<Rightarrow> pyval list \<Rightarrow> error + pyval list" where
  "show_gui e s maybe_gui actions =
     (case maybe_gui of
        None \<Rightarrow> Inr actions
      | Some g \<Rightarrow>
          (let (gui_page, gui_data) = (case g of Name p \<Rightarrow> (p, PNone) | WithData p d \<Rightarrow> (p, d))
           in case find_resource e s gui_page ''ui'' of
                None \<Rightarrow> Inl TypeError
              | Some path \<Rightarrow> Inr (actions @ [show_page_action s path gui_page gui_data])))"

text \<open>The second half: a \<^verbatim>\<open>speak\<close> action for the rendered dialog, if there is one.\<close>

definition speak_dialog :: "env \<Rightarrow> bool \<Rightarrow> item option \<Rightarrow> pyval list \<Rightarrow> error + pyval list" where
  "speak_dialog e wait maybe_dialog actions =
     (case maybe_dialog of
        None \<Rightarrow> Inr actions
      | Some d \<Rightarrow>
          (let (dialog_name, dialog_data) =
                 (case d of Name n \<Rightarrow> (n, PDict Map.empty) | WithData n x \<Rightarrow> (n, x))
           in case render e dialog_name dialog_data of
                Inl err \<Rightarrow> Inl err
              | Inr utterance \<Rightarrow> Inr (actions @ [speak_dialog_action utterance dialog_name wait])))"

text \<open>The loop over the padded pairs; an exception leaves the loop and the function.\<close>

fun interleave ::
  "env \<Rightarrow> skill \<Rightarrow> bool \<Rightarrow> (item option \<times> item option) list \<Rightarrow> pyval list \<Rightarrow> error + pyval list"
where
  "interleave e s wait [] actions = Inr actions"
| "interleave e s wait ((maybe_dialog, maybe_gui) # rest) actions =
     (case show_gui e s maybe_gui actions of
        Inl err \<Rightarrow> Inl err
      | Inr actions1 \<Rightarrow>
          (case speak_dialog e wait maybe_dialog actions1 of
             Inl err \<Rightarrow> Inl err
           | Inr actions2 \<Rightarrow> interleave e s wait rest actions2))"

text \<open>A single item, or the items of a sequence, as a list; \<^verbatim>\<open>None\<close> gives the empty list.\<close>

definition as_list :: "items option \<Rightarrow> item list" where
  "as_list x = (case x of None \<Rightarrow> [] | Some (Single i) \<Rightarrow> [i] | Some (Sequence is) \<Rightarrow> is)"

text \<open>\<^verbatim>\<open>_build_actions\<close>, statement by statement.\<close>

definition build_actions :: "env \<Rightarrow> skill \<Rightarrow> session_args \<Rightarrow> bool \<Rightarrow> error + pyval list" where
  "build_actions e s a expect_response =
     (let actions = [];
          gc = (if expect_response \<and> gui_clear a = AUTO then NEVER else gui_clear a);
          actions = (case message a of
                       Some m \<Rightarrow> if message_send a = SEND_AT_START
                                 then actions @ [message_action_at_start s m] else actions
                     | None \<Rightarrow> actions);
          actions = (if gc = AT_START then actions @ [clear_display_action] else actions);
          actions = (if truthy (audio_alert a)
                     then actions @ [audio_alert_action (the (audio_alert a))] else actions);
          guis = as_list (gui a);
          dialogs = as_list (dialog a)
      in case interleave e s (speak_wait a) (zip_longest dialogs guis) actions of
           Inl err \<Rightarrow> Inl err
         | Inr actions \<Rightarrow>
             (let actions = (case speak a of
                               Some u \<Rightarrow> actions @ [speak_action u (speak_wait a)]
                             | None \<Rightarrow> actions);
                  actions = (case message a of
                               Some m \<Rightarrow> if message_send a = SEND_AT_END
                                         then actions @ [message_action_at_end s m (message_delay a)]
                                         else actions
                             | None \<Rightarrow> actions);
                  actions = (if truthy (music_uri a)
                             then actions @ [stream_music_action (the (music_uri a))] else actions);
                  actions = (if expect_response then actions @ [get_response_action] else actions);
                  gc = (if gc = AUTO
                        then (if guis \<noteq> []
                              then (if dialogs \<noteq> [] \<or> speak a \<noteq> None then AT_END else ON_IDLE)
                              else NEVER)
                        else gc);
                  actions = (if gc = AT_END then actions @ [clear_display_action]
                             else if gc = ON_IDLE then actions @ [wait_for_idle_action]
                             else actions)
              in Inr actions))"

section \<open>The session envelope builders\<close>

text \<open>
  \<^verbatim>\<open>emit_start_session\<close>: a fresh session id unless one is given, then the start envelope
  is built and emitted on the bus. The id is drawn before the actions are compiled, so an
  exception of the compiler leaves the bus as it was.
\<close>

definition emit_start_session ::
  "env \<Rightarrow> skill \<Rightarrow> session_args \<Rightarrow> bool \<Rightarrow> bool \<Rightarrow> string option \<Rightarrow> (error + string) \<times> skill"
where
  "emit_start_session e s a expect_response cont session_id =
     (let (sid, s1) = (case session_id of
                         None \<Rightarrow> (uuid4 e (uuid_count s), s\<lparr>uuid_count := Suc (uuid_count s)\<rparr>)
                       | Some i \<Rightarrow> (i, s))
      in case build_actions e s1 a expect_response of
           Inl err \<Rightarrow> (Inl err, s1)
         | Inr actions \<Rightarrow>
             (Inr sid,
              s1\<lparr>bus := bus s1 @ [\<lparr>msg_type = ''mycroft.session.start'',
                  data = [''mycroft_session_id'' \<mapsto> PStr sid,
                          ''skill_id'' \<mapsto> PStr (skill_id s1),
                          ''actions'' \<mapsto> PList actions,
                          ''continue_session'' \<mapsto> PBool cont]\<rparr>]\<rparr>))"

text \<open>
  \<^verbatim>\<open>continue_session\<close> and \<^verbatim>\<open>end_session\<close> return the envelope; without an explicit id
  they take the one of the latest intent handler. \<^verbatim>\<open>end_session\<close> has no
  \<^verbatim>\<open>expect_response\<close> parameter and compiles with its default, \<^verbatim>\<open>False\<close>.
\<close>

definition continue_session ::
  "env \<Rightarrow> skill \<Rightarrow> session_args \<Rightarrow> bool \<Rightarrow> string option \<Rightarrow> pyval \<Rightarrow> error + message"
where
  "continue_session e s a expect_response session_id state =
     (let sid = (case session_id of None \<Rightarrow> mycroft_session_id s | Some i \<Rightarrow> PStr i)
      in case build_actions e s a expect_response of
           Inl err \<Rightarrow> Inl err
         | Inr actions \<Rightarrow>
             Inr \<lparr>msg_type = ''mycroft.session.continue'',
                  data = [''mycroft_session_id'' \<mapsto> sid,
                          ''skill_id'' \<mapsto> PStr (skill_id s),
                          ''actions'' \<mapsto> PList actions,
                          ''state'' \<mapsto> state]\<rparr>)"

definition end_session ::
  "env \<Rightarrow> skill \<Rightarrow> session_args \<Rightarrow> string option \<Rightarrow> error + message"
where
  "end_session e s a session_id =
     (let sid = (case session_id of None \<Rightarrow> mycroft_session_id s | Some i \<Rightarrow> PStr i)
      in case build_actions e s a False of
           Inl err \<Rightarrow> Inl err
         | Inr actions \<Rightarrow>
             Inr \<lparr>msg_type = ''mycroft.session.end'',
                  data = [''mycroft_session_id'' \<mapsto> sid,
                          ''skill_id'' \<mapsto> PStr (skill_id s),
                          ''actions'' \<mapsto> PList actions]\<rparr>)"

definition abort_session :: "env \<Rightarrow> skill \<Rightarrow> error + message" where
  "abort_session e s =
     (case end_session e s default_args None of
        Inl err \<Rightarrow> Inl err
      | Inr m \<Rightarrow> Inr (m\<lparr>data := (data m)(''aborted'' \<mapsto> PBool True)\<rparr>))"

section \<open>The request dispatch wrappers\<close>

text \<open>\<^verbatim>\<open>play_sound_uri\<close> emits one play-sound message.\<close>

definition play_sound_uri :: "skill \<Rightarrow> string \<Rightarrow> skill" where
  "play_sound_uri s uri =
     s\<lparr>bus := bus s @ [\<lparr>msg_type = ''mycroft.audio.play-sound'',
         data = [''uri'' \<mapsto> PStr uri, ''mycroft_session_id'' \<mapsto> mycroft_session_id s]\<rparr>]\<rparr>"

text \<open>
  \<^verbatim>\<open>acknowledge\<close>: play the configured sound, if there is one and its file is found.
  A configuration without a \<^verbatim>\<open>"sounds"\<close> entry makes \<^verbatim>\<open>None.get\<close> raise.
\<close>

definition acknowledge :: "env \<Rightarrow> skill \<Rightarrow> (error + unit) \<times> skill" where
  "acknowledge e s =
     (case config_sounds e of
        None \<Rightarrow> (Inl AttributeError, s)
      | Some sounds \<Rightarrow>
          (if truthy (sounds ''acknowledge'')
           then (let audio_file = resolve_resource_file e (the (sounds ''acknowledge''))
                 in if \<not> truthy audio_file then (Inr (), s)
                    else (Inr (), play_sound_uri s (''file://'' @ the audio_file)))
           else (Inr (), s)))"

text \<open>
  A handler is given the message and the skill; it returns a message, \<^verbatim>\<open>None\<close>, or raises,
  and may have changed the skill (and emitted on the bus) before doing so.
\<close>

type_synonym handler = "message \<Rightarrow> skill \<Rightarrow> (error + message option) \<times> skill"

text \<open>
  The last two statements of each wrapper: without a result the default end-of-session
  envelope is built, and the result is emitted.
\<close>

definition emit_result :: "env \<Rightarrow> message option \<Rightarrow> skill \<Rightarrow> (error + unit) \<times> skill" where
  "emit_result e result_message s =
     (case (case result_message of
              None \<Rightarrow> end_session e s default_args None
            | Some m \<Rightarrow> Inr m) of
        Inl err \<Rightarrow> (Inl err, s)
      | Inr m \<Rightarrow> (Inr (), s\<lparr>bus := bus s @ [m]\<rparr>))"

text \<open>The dialog argument of the error announcement in \<^verbatim>\<open>_handle_intent\<close>.\<close>

definition skill_error_args :: "env \<Rightarrow> skill \<Rightarrow> session_args" where
  "skill_error_args e s = default_args\<lparr>dialog := Some (Single (WithData ''skill.error''
     (PDict [''skill'' \<mapsto> PStr (camel_case_split e (name s))])))\<rparr>"

text \<open>
  \<^verbatim>\<open>_handle_intent\<close>, the wrapper that \<^verbatim>\<open>_add_intent_handler\<close> registers: it records the
  session id of the request, acknowledges, calls the handler and emits the result. An
  exception of \<^verbatim>\<open>acknowledge\<close> or of the handler is caught; the error is then spoken in a
  session of its own. An exception of that announcement is not caught.
\<close>

definition handle_intent :: "env \<Rightarrow> handler \<Rightarrow> message \<Rightarrow> skill \<Rightarrow> (error + unit) \<times> skill" where
  "handle_intent e handler m s =
     (let s = s\<lparr>mycroft_session_id := dict_get (data m) ''mycroft_session_id''\<rparr>;
          (r, s) = (case acknowledge e s of
                      (Inl err, s1) \<Rightarrow> (Inl err, s1)
                    | (Inr u, s1) \<Rightarrow> handler (unmunge_message e m (skill_id s1)) s1)
      in case r of
           Inr result_message \<Rightarrow> emit_result e result_message s
         | Inl err \<Rightarrow>
             (case emit_start_session e s (skill_error_args e s) False False None of
                (Inl err2, s2) \<Rightarrow> (Inl err2, s2)
              | (Inr sid, s2) \<Rightarrow> emit_result e None s2))"

text \<open>
  \<^verbatim>\<open>utterances[0] if utterances else None\<close>. The utterances are a list; for the other
  values a payload can hold, an empty or zero one is false, a string gives its first
  character, and a number or a dict (whose keys are strings) cannot be read at \<open>0\<close>.
\<close>

definition first_utterance :: "pyval \<Rightarrow> error + pyval" where
  "first_utterance utterances =
     (case utterances of
        PNone \<Rightarrow> Inr PNone
      | PList us \<Rightarrow> (case us of [] \<Rightarrow> Inr PNone | u # rest \<Rightarrow> Inr u)
      | PStr cs \<Rightarrow> (case cs of [] \<Rightarrow> Inr PNone | c # rest \<Rightarrow> Inr (PStr [c]))
      | PBool b \<Rightarrow> (if b then Inl TypeError else Inr PNone)
      | PInt i \<Rightarrow> (if i \<noteq> 0 then Inl TypeError else Inr PNone)
      | PFloat x \<Rightarrow> (if x \<noteq> 0 then Inl TypeError else Inr PNone)
      | PDict d \<Rightarrow> (if d \<noteq> Map.empty then Inl (Exception ''KeyError'') else Inr PNone))"

type_synonym reply_handler = "pyval \<Rightarrow> pyval \<Rightarrow> skill \<Rightarrow> (error + message option) \<times> skill"

text \<open>
  \<^verbatim>\<open>__handle_skill_response\<close>: a reply is handled only when both its skill id and its
  session id are the skill's own; anything else falls through the \<^verbatim>\<open>if\<close>.
\<close>

definition handle_skill_response ::
  "env \<Rightarrow> reply_handler \<Rightarrow> message \<Rightarrow> skill \<Rightarrow> (error + unit) \<times> skill"
where
  "handle_skill_response e raw_utterance m s =
     (if dict_get (data m) ''skill_id'' = PStr (skill_id s)
         \<and> dict_get (data m) ''mycroft_session_id'' = mycroft_session_id s
      then (case first_utterance (dict_get (data m) ''utterances'') of
              Inl err \<Rightarrow> (Inl err, s)
            | Inr utterance \<Rightarrow>
                (let state = dict_get (data m) ''state'';
                     (r, s) = (case acknowledge e s of
                                 (Inl err, s1) \<Rightarrow> (Inl err, s1)
                               | (Inr u, s1) \<Rightarrow> raw_utterance utterance state s1)
                 in case r of
                      Inr result_message \<Rightarrow> emit_result e result_message s
                    | Inl err \<Rightarrow> emit_result e None s))
      else (Inr (), s))"

section \<open>Reading the compiled list\<close>

text \<open>
  The value of \<^verbatim>\<open>gui_clear\<close> after the first statement of \<^verbatim>\<open>_build_actions\<close>, and its
  value after the resolution of \<^verbatim>\<open>AUTO\<close> near the end.
\<close>

definition initial_gui_clear :: "session_args \<Rightarrow> bool \<Rightarrow> GuiClear" where
  "initial_gui_clear a expect_response =
     (if expect_response \<and> gui_clear a = AUTO then NEVER else gui_clear a)"

definition resolved_gui_clear :: "session_args \<Rightarrow> bool \<Rightarrow> GuiClear" where
  "resolved_gui_clear a expect_response =
     (if initial_gui_clear a expect_response = AUTO
      then (if as_list (gui a) \<noteq> []
            then (if as_list (dialog a) \<noteq> [] \<or> speak a \<noteq> None then AT_END else ON_IDLE)
            else NEVER)
      else initial_gui_clear a expect_response)"

text \<open>The segments of the output, in the order of the statements that append them.\<close>

definition start_part :: "skill \<Rightarrow> session_args \<Rightarrow> pyval list" where
  "start_part s a = (case message a of
      Some m \<Rightarrow> if message_send a = SEND_AT_START then [message_action_at_start s m] else []
    | None \<Rightarrow> [])"

definition pre_actions :: "skill \<Rightarrow> session_args \<Rightarrow> bool \<Rightarrow> pyval list" where
  "pre_actions s a expect_response =
     start_part s a
     @ (if initial_gui_clear a expect_response = AT_START then [clear_display_action] else [])
     @ (if truthy (audio_alert a) then [audio_alert_action (the (audio_alert a))] else [])"

definition speak_part :: "session_args \<Rightarrow> pyval list" where
  "speak_part a = (case speak a of Some u \<Rightarrow> [speak_action u (speak_wait a)] | None \<Rightarrow> [])"

definition end_part :: "skill \<Rightarrow> session_args \<Rightarrow> pyval list" where
  "end_part s a = (case message a of
      Some m \<Rightarrow> if message_send a = SEND_AT_END
                then [message_action_at_end s m (message_delay a)] else []
    | None \<Rightarrow> [])"

definition music_part :: "session_args \<Rightarrow> pyval list" where
  "music_part a =
     (if truthy (music_uri a) then [stream_music_action (the (music_uri a))] else [])"

definition response_part :: "bool \<Rightarrow> pyval list" where
  "response_part expect_response = (if expect_response then [get_response_action] else [])"

definition trailing :: "session_args \<Rightarrow> bool \<Rightarrow> pyval list" where
  "trailing a expect_response =
     (if resolved_gui_clear a expect_response = AT_END then [clear_display_action]
      else if resolved_gui_clear a expect_response = ON_IDLE then [wait_for_idle_action]
      else [])"

definition post_actions :: "skill \<Rightarrow> session_args \<Rightarrow> bool \<Rightarrow> pyval list" where
  "post_actions s a expect_response =
     speak_part a @ end_part s a @ music_part a @ response_part expect_response
     @ trailing a expect_response"

text \<open>The payload of a message action: the dict under its \<^verbatim>\<open>"data"\<close> key.\<close>

definition action_data :: "pyval \<Rightarrow> dict" where
  "action_data x =
     (case x of
        PDict d \<Rightarrow> (case d ''data'' of Some (PDict p) \<Rightarrow> p | _ \<Rightarrow> Map.empty)
      | _ \<Rightarrow> Map.empty)"

text \<open>The action list of an envelope: the list under its \<^verbatim>\<open>"actions"\<close> key.\<close>

definition envelope_actions :: "message \<Rightarrow> pyval list" where
  "envelope_actions m = (case data m ''actions'' of Some (PList xs) \<Rightarrow> xs | _ \<Rightarrow> [])"

subsection \<open>Positional pairing, as the specification words it\<close>

text \<open>
  The page name and data of a GUI item and the template name and data of a dialog item:
  a bare name has no data (\<^verbatim>\<open>None\<close> for a page, \<^verbatim>\<open>{}\<close> for a dialog).
\<close>

definition gui_page_of :: "item \<Rightarrow> string" where
  "gui_page_of g = (case g of Name p \<Rightarrow> p | WithData p d \<Rightarrow> p)"

definition gui_data_of :: "item \<Rightarrow> pyval" where
  "gui_data_of g = (case g of Name p \<Rightarrow> PNone | WithData p d \<Rightarrow> d)"

definition dialog_name_of :: "item \<Rightarrow> string" where
  "dialog_name_of d = (case d of Name n \<Rightarrow> n | WithData n x \<Rightarrow> n)"

definition dialog_data_of :: "item \<Rightarrow> pyval" where
  "dialog_data_of d = (case d of Name n \<Rightarrow> PDict Map.empty | WithData n x \<Rightarrow> x)"

text \<open>Every page is found and every dialog renders: the compilation raises nothing.\<close>

definition resolvable :: "env \<Rightarrow> skill \<Rightarrow> item list \<Rightarrow> item list \<Rightarrow> bool" where
  "resolvable e s dialogs guis =
     (list_all (\<lambda>g. find_resource e s (gui_page_of g) ''ui'' \<noteq> None) guis
      \<and> list_all (\<lambda>d. \<not> isl (render e (dialog_name_of d) (dialog_data_of d))) dialogs)"

definition show_page_for :: "env \<Rightarrow> skill \<Rightarrow> item \<Rightarrow> pyval" where
  "show_page_for e s g =
     show_page_action s (the (find_resource e s (gui_page_of g) ''ui'')) (gui_page_of g)
       (gui_data_of g)"

definition speak_for :: "env \<Rightarrow> bool \<Rightarrow> item \<Rightarrow> pyval" where
  "speak_for e wait d =
     speak_dialog_action (projr (render e (dialog_name_of d) (dialog_data_of d)))
       (dialog_name_of d) wait"

text \<open>
  In the words of the specification's step 4: at position \<open>i\<close>, the page of the \<open>i\<close>-th GUI item
  if there is one, then the speech of the \<open>i\<close>-th dialog item if there is one; the positions
  run to the length of the longer sequence.
\<close>

definition position_actions ::
  "env \<Rightarrow> skill \<Rightarrow> bool \<Rightarrow> item list \<Rightarrow> item list \<Rightarrow> nat \<Rightarrow> pyval list"
where
  "position_actions e s wait dialogs guis i =
     (if i < length guis then [show_page_for e s (guis ! i)] else [])
     @ (if i < length dialogs then [speak_for e wait (dialogs ! i)] else [])"

definition paired_actions ::
  "env \<Rightarrow> skill \<Rightarrow> bool \<Rightarrow> item list \<Rightarrow> item list \<Rightarrow> pyval list"
where
  "paired_actions e s wait dialogs guis =
     concat (map (position_actions e s wait dialogs guis)
       [0 ..< max (length dialogs) (length guis)])"

subsection \<open>A concrete skill, its surroundings and some handlers\<close>

definition example_env :: env where
  "example_env = \<lparr>
     find_resource_in = (\<lambda>res_name lang res_dirname. Some (''/skill/ui/'' @ res_name)),
     render = (\<lambda>dialog_name dialog_data. Inr dialog_name),
     config_sounds = Some Map.empty,
     resolve_resource_file = (\<lambda>f. None),
     camel_case_split = (\<lambda>x. x),
     unmunge_message = (\<lambda>m i. m),
     uuid4 = (\<lambda>n. ''session-'' @ replicate n (CHR ''x'')) \<rparr>"

definition example_skill :: skill where
  "example_skill = \<lparr> skill_id = ''demo'', name = ''Demo'', lang = ''en-us'',
     mycroft_session_id = PNone, bus = [], uuid_count = 0 \<rparr>"

definition example_request :: message where
  "example_request = \<lparr> msg_type = ''demo:Intent'',
     data = [''mycroft_session_id'' \<mapsto> PStr ''R''] \<rparr>"

definition example_message :: message where
  "example_message = \<lparr> msg_type = ''demo.event'',
     data = [''mycroft_session_id'' \<mapsto> PStr ''own'', ''n'' \<mapsto> PInt 1] \<rparr>"

text \<open>A handler that raises at once, and one that returns \<^verbatim>\<open>continue_session(...)\<close>.\<close>

definition raising_handler :: handler where
  "raising_handler m s = (Inl (Exception ''boom''), s)"

definition continuing_handler :: "env \<Rightarrow> session_args \<Rightarrow> bool \<Rightarrow> pyval \<Rightarrow> handler" where
  "continuing_handler e a expect_response state m s =
     (case continue_session e s a expect_response None state of
        Inl err \<Rightarrow> (Inl err, s)
      | Inr r \<Rightarrow> (Inr (Some r), s))"

text \<open>A reply handler that leaves its mark on the bus whenever it is called.\<close>

definition marking_reply_handler :: reply_handler where
  "marking_reply_handler utterance state s =
     (Inr None, s\<lparr>bus := bus s @ [\<lparr>msg_type = ''called'', data = Map.empty\<rparr>]\<rparr>)"

text \<open>
  Two replies: one addressed to another skill, and one for this skill in the session it
  has before any request (no session id).
\<close>

definition foreign_reply :: message where
  "foreign_reply = \<lparr> msg_type = ''mycroft.skill-response'',
     data = [''skill_id'' \<mapsto> PStr ''other'', ''utterances'' \<mapsto> PList [PStr ''yes'']] \<rparr>"

definition own_reply :: message where
  "own_reply = \<lparr> msg_type = ''mycroft.skill-response'',
     data = [''skill_id'' \<mapsto> PStr ''demo'', ''utterances'' \<mapsto> PList [PStr ''yes'']] \<rparr>"

text \<open>A message without a session id of its own.\<close>

definition plain_message :: message where
  "plain_message = \<lparr> msg_type = ''demo.event'', data = [''n'' \<mapsto> PInt 1] \<rparr>"

section \<open>The shape of the compiled list\<close>

text \<open>
  Each statement of the compiler only appends, so the output is the actions before the
  loop, the actions of the loop and the actions after it, in this order.
\<close>

lemma show_gui_acc:
  "show_gui e s g acc = map_sum id ((@) acc) (show_gui e s g [])"
  by (simp add: show_gui_def split: option.splits item.splits)

lemma speak_dialog_acc:
  "speak_dialog e w d acc = map_sum id ((@) acc) (speak_dialog e w d [])"
  by (simp add: speak_dialog_def split: option.splits item.splits sum.splits)

lemma interleave_acc:
  "interleave e s w ps acc = map_sum id ((@) acc) (interleave e s w ps [])"
proof (induction ps arbitrary: acc)
  case Nil
  then show ?case by simp
next
  case (Cons p ps)
  obtain d g where p: "p = (d, g)" by (cases p)
  show ?case
  proof (cases "show_gui e s g []")
    case (Inl err)
    then show ?thesis
      unfolding p by (simp add: show_gui_acc [of e s g acc])
  next
    case (Inr b1)
    note g = this
    show ?thesis
    proof (cases "speak_dialog e w d []")
      case (Inl err)
      then show ?thesis
        unfolding p using g
        by (simp add: show_gui_acc [of e s g acc] speak_dialog_acc [of e w d "acc @ b1"]
              speak_dialog_acc [of e w d b1])
    next
      case (Inr b2)
      then show ?thesis
        unfolding p using g
        apply (simp add: show_gui_acc [of e s g acc] speak_dialog_acc [of e w d "acc @ b1"]
              speak_dialog_acc [of e w d b1])
        apply (subst Cons.IH [of "acc @ b1 @ b2"])
        apply (subst Cons.IH [of "b1 @ b2"])
        apply (cases "interleave e s w ps []")
         apply simp_all
        done
    qed
  qed
qed

lemma build_actions_decomp:
  "build_actions e s a er =
     map_sum id (\<lambda>block. pre_actions s a er @ block @ post_actions s a er)
       (interleave e s (speak_wait a) (zip_longest (as_list (dialog a)) (as_list (gui a))) [])"
  unfolding build_actions_def Let_def
  apply (subst interleave_acc)
  apply (cases "interleave e s (speak_wait a) (zip_longest (as_list (dialog a)) (as_list (gui a))) []")
   apply simp
  apply (simp add: pre_actions_def post_actions_def start_part_def end_part_def trailing_def
      speak_part_def music_part_def response_part_def
      resolved_gui_clear_def initial_gui_clear_def split: option.splits)
  done

lemma build_actions_Inr:
  "build_actions e s a er = Inr acts \<Longrightarrow>
     \<exists>block. interleave e s (speak_wait a) (zip_longest (as_list (dialog a)) (as_list (gui a))) []
               = Inr block
       \<and> acts = pre_actions s a er @ block @ post_actions s a er"
  by (cases "interleave e s (speak_wait a) (zip_longest (as_list (dialog a)) (as_list (gui a))) []")
     (simp_all add: build_actions_decomp)

lemma action_type_actions [simp]:
  "action_type (message_action_at_start s m) = PStr ''message''"
  "action_type (message_action_at_end s m dl) = PStr ''message''"
  "action_type clear_display_action = PStr ''clear_display''"
  "action_type (audio_alert_action uri) = PStr ''audio_alert''"
  "action_type (show_page_action s p g gd) = PStr ''show_page''"
  "action_type (speak_dialog_action u dn w) = PStr ''speak''"
  "action_type (speak_action u w) = PStr ''speak''"
  "action_type (stream_music_action uri) = PStr ''stream_music''"
  "action_type get_response_action = PStr ''get_response''"
  "action_type wait_for_idle_action = PStr ''wait_for_idle''"
  by (simp_all add: action_type_def dict_get_def message_action_at_start_def
      message_action_at_end_def clear_display_action_def audio_alert_action_def
      show_page_action_def speak_dialog_action_def speak_action_def stream_music_action_def
      get_response_action_def wait_for_idle_action_def)

lemma show_gui_types:
  "show_gui e s g [] = Inr b \<Longrightarrow> x \<in> set b \<Longrightarrow> action_type x = PStr ''show_page''"
  by (auto simp: show_gui_def split: option.splits item.splits)

lemma speak_dialog_types:
  "speak_dialog e w d [] = Inr b \<Longrightarrow> x \<in> set b \<Longrightarrow> action_type x = PStr ''speak''"
  by (auto simp: speak_dialog_def split: option.splits item.splits sum.splits)

lemma interleave_types:
  "interleave e s w ps [] = Inr b \<Longrightarrow> x \<in> set b \<Longrightarrow>
     action_type x = PStr ''show_page'' \<or> action_type x = PStr ''speak''"
proof (induction ps arbitrary: b)
  case Nil
  then show ?case by simp
next
  case (Cons p ps)
  obtain d g where p: "p = (d, g)" by (cases p)
  from Cons.prems(1) obtain b1 where b1: "show_gui e s g [] = Inr b1"
    unfolding p by (cases "show_gui e s g []") simp_all
  from Cons.prems(1) b1 obtain b2 where b2: "speak_dialog e w d [] = Inr b2"
    unfolding p by (cases "speak_dialog e w d []") (simp_all add: speak_dialog_acc [of e w d b1])
  from Cons.prems(1) b1 b2 obtain b3 where b3: "interleave e s w ps [] = Inr b3"
    and b: "b = b1 @ b2 @ b3"
    unfolding p
    by (cases "interleave e s w ps []")
       (simp_all add: speak_dialog_acc [of e w d b1] interleave_acc [of e s w ps "b1 @ b2"])
  from Cons.prems(2) b consider "x \<in> set b1" | "x \<in> set b2" | "x \<in> set b3" by auto
  then show ?case
  proof cases
    case 1
    with b1 show ?thesis by (simp add: show_gui_types)
  next
    case 2
    with b2 show ?thesis by (simp add: speak_dialog_types)
  next
    case 3
    with b3 show ?thesis by (rule Cons.IH)
  qed
qed

lemma interleave_filter_other:
  assumes "interleave e s w ps [] = Inr b" and "t \<noteq> ''show_page''" and "t \<noteq> ''speak''"
  shows "filter (has_type t) b = []"
proof -
  have "\<not> has_type t x" if "x \<in> set b" for x
    using interleave_types [OF assms(1) that] assms(2,3) by (auto simp: has_type_def)
  then show ?thesis by (simp add: filter_empty_conv)
qed

lemma initial_resolved:
  "initial_gui_clear a er = AT_START \<Longrightarrow> resolved_gui_clear a er = AT_START"
  by (simp add: resolved_gui_clear_def)

lemma filter_clear_pre:
  "filter (has_type ''clear_display'') (pre_actions s a er) =
     (if initial_gui_clear a er = AT_START then [clear_display_action] else [])"
  by (simp add: pre_actions_def start_part_def has_type_def split: option.splits)

lemma filter_clear_post:
  "filter (has_type ''clear_display'') (post_actions s a er) =
     (if resolved_gui_clear a er = AT_END then [clear_display_action] else [])"
  by (simp add: post_actions_def speak_part_def end_part_def music_part_def response_part_def
      trailing_def has_type_def split: option.splits)

lemma filter_idle_pre:
  "filter (has_type ''wait_for_idle'') (pre_actions s a er) = []"
  by (simp add: pre_actions_def start_part_def has_type_def split: option.splits)

lemma filter_idle_post:
  "filter (has_type ''wait_for_idle'') (post_actions s a er) =
     (if resolved_gui_clear a er = ON_IDLE then [wait_for_idle_action] else [])"
  by (simp add: post_actions_def speak_part_def end_part_def music_part_def response_part_def
      trailing_def has_type_def split: option.splits)

lemma filter_clear_build:
  assumes "build_actions e s a er = Inr acts"
  shows "filter (has_type ''clear_display'') acts =
     (if resolved_gui_clear a er = AT_START \<or> resolved_gui_clear a er = AT_END
      then [clear_display_action] else [])"
proof -
  from build_actions_Inr [OF assms] obtain block where
    block: "interleave e s (speak_wait a) (zip_longest (as_list (dialog a)) (as_list (gui a))) []
              = Inr block"
    and acts: "acts = pre_actions s a er @ block @ post_actions s a er"
    by blast
  have mid: "filter (has_type ''clear_display'') block = []"
    using block by (rule interleave_filter_other) simp_all
  have pre: "initial_gui_clear a er = AT_START \<longleftrightarrow> resolved_gui_clear a er = AT_START"
    by (auto simp: resolved_gui_clear_def split: if_splits)
  show ?thesis
    unfolding acts by (simp add: mid filter_clear_pre filter_clear_post pre)
qed

lemma filter_idle_build:
  assumes "build_actions e s a er = Inr acts"
  shows "filter (has_type ''wait_for_idle'') acts =
     (if resolved_gui_clear a er = ON_IDLE then [wait_for_idle_action] else [])"
proof -
  from build_actions_Inr [OF assms] obtain block where
    block: "interleave e s (speak_wait a) (zip_longest (as_list (dialog a)) (as_list (gui a))) []
              = Inr block"
    and acts: "acts = pre_actions s a er @ block @ post_actions s a er"
    by blast
  have mid: "filter (has_type ''wait_for_idle'') block = []"
    using block by (rule interleave_filter_other) simp_all
  show ?thesis
    unfolding acts by (simp add: mid filter_idle_pre filter_idle_post)
qed

lemma mem_type_filter: "(\<exists>x\<in>set xs. has_type t x) \<longleftrightarrow> filter (has_type t) xs \<noteq> []"
  by (simp add: filter_empty_conv)

lemma filter_build_other:
  assumes "build_actions e s a er = Inr acts" and "t \<noteq> ''show_page''" and "t \<noteq> ''speak''"
  shows "filter (has_type t) acts =
     filter (has_type t) (pre_actions s a er) @ filter (has_type t) (post_actions s a er)"
proof -
  from build_actions_Inr [OF assms(1)] obtain block where
    block: "interleave e s (speak_wait a) (zip_longest (as_list (dialog a)) (as_list (gui a))) []
              = Inr block"
    and acts: "acts = pre_actions s a er @ block @ post_actions s a er"
    by blast
  have "filter (has_type t) block = []"
    using block assms(2,3) by (rule interleave_filter_other)
  then show ?thesis unfolding acts by simp
qed

lemma filter_message_build:
  assumes "build_actions e s a er = Inr acts"
  shows "filter (has_type ''message'') acts = start_part s a @ end_part s a"
proof -
  have pre: "filter (has_type ''message'') (pre_actions s a er) = start_part s a"
    by (simp add: pre_actions_def start_part_def has_type_def split: option.splits)
  have post: "filter (has_type ''message'') (post_actions s a er) = end_part s a"
    by (simp add: post_actions_def speak_part_def end_part_def music_part_def
        response_part_def trailing_def has_type_def split: option.splits)
  show ?thesis
    using filter_build_other [OF assms, of "''message''"] by (simp add: pre post)
qed

lemma filter_response_build:
  assumes "build_actions e s a er = Inr acts"
  shows "filter (has_type ''get_response'') acts = response_part er"
proof -
  have pre: "filter (has_type ''get_response'') (pre_actions s a er) = []"
    by (simp add: pre_actions_def start_part_def has_type_def split: option.splits)
  have post: "filter (has_type ''get_response'') (post_actions s a er) = response_part er"
    by (simp add: post_actions_def speak_part_def end_part_def music_part_def
        response_part_def trailing_def has_type_def split: option.splits)
  show ?thesis
    using filter_build_other [OF assms, of "''get_response''"] by (simp add: pre post)
qed

lemma resolved_expect_response:
  "resolved_gui_clear a True = ON_IDLE \<longleftrightarrow> gui_clear a = ON_IDLE"
  by (simp add: resolved_gui_clear_def initial_gui_clear_def)

lemma resolved_auto:
  "gui_clear a = AUTO \<Longrightarrow> resolved_gui_clear a False =
     (if as_list (gui a) \<noteq> []
      then (if as_list (dialog a) \<noteq> [] \<or> speak a \<noteq> None then AT_END else ON_IDLE)
      else NEVER)"
  by (simp add: resolved_gui_clear_def initial_gui_clear_def)

lemma build_actions_trailing:
  assumes "build_actions e s a er = Inr acts"
  shows "\<exists>before. acts = before @ trailing a er"
proof -
  from build_actions_Inr [OF assms] obtain block where
    "acts = pre_actions s a er @ block @ post_actions s a er" by blast
  then have "acts = (pre_actions s a er @ block @ speak_part a @ end_part s a @ music_part a
      @ response_part er) @ trailing a er"
    by (simp add: post_actions_def)
  then show ?thesis by blast
qed

lemma build_actions_hello:
  "build_actions e s (default_args\<lparr>speak := Some ''Hello''\<rparr>) False
     = Inr [speak_action ''Hello'' True]"
  by (simp add: build_actions_def Let_def default_args_def as_list_def truthy_def)

lemma action_data_message [simp]:
  "action_data (message_action_at_start s m)
     = [''mycroft_session_id'' \<mapsto> mycroft_session_id s] ++ data m"
  "action_data (message_action_at_end s m dl)
     = [''mycroft_session_id'' \<mapsto> mycroft_session_id s] ++ data m"
  by (simp_all add: action_data_def message_action_at_start_def message_action_at_end_def)

lemma message_parts:
  "message a = Some m \<Longrightarrow> start_part s a @ end_part s a =
     (if message_send a = SEND_AT_START then [message_action_at_start s m]
      else [message_action_at_end s m (message_delay a)])"
  by (cases "message_send a") (simp_all add: start_part_def end_part_def)

lemma pre_no_message:
  "start_part s a = [] \<Longrightarrow> x \<in> set (pre_actions s a er) \<Longrightarrow> \<not> has_type ''message'' x"
  by (auto simp: pre_actions_def has_type_def split: if_splits)

lemma block_no_message:
  assumes "interleave e s w ps [] = Inr b" and "x \<in> set b"
  shows "\<not> has_type ''message'' x"
  using interleave_types [OF assms] by (auto simp: has_type_def)

lemma build_actions_default: "build_actions e s default_args False = Inr []"
  by (simp add: build_actions_def Let_def default_args_def as_list_def truthy_def)

lemma end_session_default:
  "end_session e s default_args None =
     Inr \<lparr>msg_type = ''mycroft.session.end'',
          data = [''mycroft_session_id'' \<mapsto> mycroft_session_id s,
                  ''skill_id'' \<mapsto> PStr (skill_id s),
                  ''actions'' \<mapsto> PList []]\<rparr>"
  by (simp add: end_session_def build_actions_default)

lemma emit_result_None:
  "emit_result e None s =
     (Inr (), s\<lparr>bus := bus s @ [\<lparr>msg_type = ''mycroft.session.end'',
          data = [''mycroft_session_id'' \<mapsto> mycroft_session_id s,
                  ''skill_id'' \<mapsto> PStr (skill_id s),
                  ''actions'' \<mapsto> PList []]\<rparr>]\<rparr>)"
  by (simp add: emit_result_def end_session_default)

lemma acknowledge_ok:
  "config_sounds e \<noteq> None \<Longrightarrow> fst (acknowledge e s) = Inr ()"
  by (auto simp: acknowledge_def Let_def)

lemma acknowledge_fields:
  "skill_id (snd (acknowledge e s)) = skill_id s"
  "name (snd (acknowledge e s)) = name s"
  "lang (snd (acknowledge e s)) = lang s"
  "mycroft_session_id (snd (acknowledge e s)) = mycroft_session_id s"
  "uuid_count (snd (acknowledge e s)) = uuid_count s"
  by (simp_all add: acknowledge_def play_sound_uri_def Let_def split: option.splits)

lemma continue_session_id:
  assumes "continue_session e s a er None st = Inr r"
  shows "msg_type r = ''mycroft.session.continue''
     \<and> data r ''mycroft_session_id'' = Some (mycroft_session_id s)"
  using assms by (auto simp: continue_session_def split: sum.splits)

lemma handle_intent_returned:
  assumes ack: "config_sounds e \<noteq> None"
    and h: "handler (unmunge_message e m (skill_id s))
          (snd (acknowledge e (s\<lparr>mycroft_session_id := dict_get (data m) ''mycroft_session_id''\<rparr>)))
        = (Inr (Some r), s2)"
  shows "handle_intent e handler m s = (Inr (), s2\<lparr>bus := bus s2 @ [r]\<rparr>)"
proof -
  let ?s0 = "s\<lparr>mycroft_session_id := dict_get (data m) ''mycroft_session_id''\<rparr>"
  obtain u s1 where a: "acknowledge e ?s0 = (u, s1)" by (cases "acknowledge e ?s0")
  have u: "u = Inr ()" using acknowledge_ok [OF ack, of ?s0] a by simp
  have id: "skill_id s1 = skill_id s" using acknowledge_fields(1) [of e ?s0] a by simp
  show ?thesis
    using h a u id by (simp add: handle_intent_def emit_result_def)
qed

lemma build_actions_skill_error:
  assumes "render e ''skill.error'' (PDict [''skill'' \<mapsto> PStr (camel_case_split e (name s2))])
      = Inr utterance"
  shows "build_actions e s1 (skill_error_args e s2) False
      = Inr [speak_dialog_action utterance ''skill.error'' True]"
  using assms
  by (simp add: build_actions_def Let_def skill_error_args_def default_args_def as_list_def
      truthy_def show_gui_def speak_dialog_def)

lemma emit_start_session_skill_error:
  assumes "render e ''skill.error'' (PDict [''skill'' \<mapsto> PStr (camel_case_split e (name s))])
      = Inr utterance"
  shows "emit_start_session e s (skill_error_args e s) False False None =
     (Inr (uuid4 e (uuid_count s)),
      s\<lparr>uuid_count := Suc (uuid_count s),
        bus := bus s @ [\<lparr>msg_type = ''mycroft.session.start'',
          data = [''mycroft_session_id'' \<mapsto> PStr (uuid4 e (uuid_count s)),
                  ''skill_id'' \<mapsto> PStr (skill_id s),
                  ''actions'' \<mapsto> PList [speak_dialog_action utterance ''skill.error'' True],
                  ''continue_session'' \<mapsto> PBool False]\<rparr>]\<rparr>)"
  by (simp add: emit_start_session_def build_actions_skill_error [OF assms])

lemma show_gui_resolved:
  "find_resource e s (gui_page_of g) ''ui'' \<noteq> None \<Longrightarrow>
     show_gui e s (Some g) [] = Inr [show_page_for e s g]"
  by (cases g) (auto simp: show_gui_def show_page_for_def gui_page_of_def gui_data_of_def)

lemma speak_dialog_resolved:
  "\<not> isl (render e (dialog_name_of d) (dialog_data_of d)) \<Longrightarrow>
     speak_dialog e w (Some d) [] = Inr [speak_for e w d]"
  by (cases d; cases "render e (dialog_name_of d) (dialog_data_of d)")
     (auto simp: speak_dialog_def speak_for_def dialog_name_of_def dialog_data_of_def)

lemma show_gui_None: "show_gui e s None acc = Inr acc"
  by (simp add: show_gui_def)

lemma speak_dialog_None: "speak_dialog e w None acc = Inr acc"
  by (simp add: speak_dialog_def)

lemma upt_Suc_shift: "[0..<Suc n] = 0 # map Suc [0..<n]"
  by (simp add: upt_conv_Cons map_Suc_upt del: upt_Suc)

lemma position_actions_Suc:
  "position_actions e s w (d # ds) (g # gs) (Suc i) = position_actions e s w ds gs i"
  "position_actions e s w (d # ds) [] (Suc i) = position_actions e s w ds [] i"
  "position_actions e s w [] (g # gs) (Suc i) = position_actions e s w [] gs i"
  by (simp_all add: position_actions_def)

lemma position_actions_0:
  "position_actions e s w (d # ds) (g # gs) 0 = [show_page_for e s g, speak_for e w d]"
  "position_actions e s w (d # ds) [] 0 = [speak_for e w d]"
  "position_actions e s w [] (g # gs) 0 = [show_page_for e s g]"
  by (simp_all add: position_actions_def)

lemma paired_actions_Nil: "paired_actions e s w [] [] = []"
  by (simp add: paired_actions_def)

lemma paired_actions_Cons_Cons:
  "paired_actions e s w (d # ds) (g # gs) =
     show_page_for e s g # speak_for e w d # paired_actions e s w ds gs"
  unfolding paired_actions_def
  by (simp add: upt_Suc_shift position_actions_0 position_actions_Suc comp_def del: upt_Suc)

lemma paired_actions_Cons_Nil:
  "paired_actions e s w (d # ds) [] = speak_for e w d # paired_actions e s w ds []"
  unfolding paired_actions_def
  by (simp add: upt_Suc_shift position_actions_0 position_actions_Suc comp_def del: upt_Suc)

lemma paired_actions_Nil_Cons:
  "paired_actions e s w [] (g # gs) = show_page_for e s g # paired_actions e s w [] gs"
  unfolding paired_actions_def
  by (simp add: upt_Suc_shift position_actions_0 position_actions_Suc comp_def del: upt_Suc)

lemma interleave_paired:
  "resolvable e s dialogs guis \<Longrightarrow>
     interleave e s w (zip_longest dialogs guis) [] = Inr (paired_actions e s w dialogs guis)"
proof (induction dialogs guis rule: zip_longest.induct)
  case 1
  then show ?case by (simp add: paired_actions_Nil)
next
  case (2 d ds)
  then have r: "\<not> isl (render e (dialog_name_of d) (dialog_data_of d))"
    and rest: "resolvable e s ds []"
    by (simp_all add: resolvable_def)
  show ?case
    using "2.IH" [OF rest]
    by (simp add: show_gui_None speak_dialog_resolved [OF r] paired_actions_Cons_Nil
        interleave_acc [of e s w _ "[speak_for e w d]"])
next
  case (3 g gs)
  then have r: "find_resource e s (gui_page_of g) ''ui'' \<noteq> None"
    and rest: "resolvable e s [] gs"
    by (simp_all add: resolvable_def)
  show ?case
    using "3.IH" [OF rest]
    by (simp add: speak_dialog_None show_gui_resolved [OF r] paired_actions_Nil_Cons
        interleave_acc [of e s w _ "[show_page_for e s g]"])
next
  case (4 d ds g gs)
  then have r1: "find_resource e s (gui_page_of g) ''ui'' \<noteq> None"
    and r2: "\<not> isl (render e (dialog_name_of d) (dialog_data_of d))"
    and rest: "resolvable e s ds gs"
    by (simp_all add: resolvable_def)
  show ?case
    using "4.IH" [OF rest]
    by (simp add: show_gui_resolved [OF r1] speak_dialog_resolved [OF r2]
        speak_dialog_acc [of e w "Some d" "[show_page_for e s g]"]
        paired_actions_Cons_Cons
        interleave_acc [of e s w _ "[show_page_for e s g, speak_for e w d]"])
qed

lemma length_paired_actions:
  "length (paired_actions e s w dialogs guis) = length dialogs + length guis"
  by (induction dialogs guis rule: zip_longest.induct)
     (simp_all add: paired_actions_Nil paired_actions_Cons_Nil paired_actions_Nil_Cons
        paired_actions_Cons_Cons)

text \<open>The definitions that the simplifier unfolds to run the compiler on a concrete input.\<close>

lemmas compile_defs = build_actions_def Let_def default_args_def example_env_def
  example_skill_def as_list_def truthy_def show_gui_def speak_dialog_def find_resource_def

section \<open>The claims\<close>

text \<open>
  C3. For every input, the list returned by \<^verbatim>\<open>_build_actions\<close> holds at most one
  \<^verbatim>\<open>clear_display\<close> action, and never both a \<^verbatim>\<open>clear_display\<close> and a
  \<^verbatim>\<open>wait_for_idle\<close> action.
\<close>

theorem build_actions_clear_once:
  assumes "build_actions e s a expect_response = Inr acts"
  shows "length (filter (has_type ''clear_display'') acts) \<le> 1
     \<and> \<not> ((\<exists>x\<in>set acts. has_type ''clear_display'' x)
           \<and> (\<exists>y\<in>set acts. has_type ''wait_for_idle'' y))"
  unfolding mem_type_filter
  by (simp add: filter_clear_build [OF assms] filter_idle_build [OF assms])

theorem build_actions_clear_once_witness:
  "build_actions example_env example_skill
     (default_args\<lparr>gui := Some (Single (Name ''g1'')), speak := Some ''Hi''\<rparr>) False
   = Inr [show_page_action example_skill ''/skill/ui/g1'' ''g1'' PNone,
          speak_action ''Hi'' True, clear_display_action]
   \<and> length (filter (has_type ''clear_display'')
        [show_page_action example_skill ''/skill/ui/g1'' ''g1'' PNone,
         speak_action ''Hi'' True, clear_display_action]) \<le> 1
   \<and> \<not> ((\<exists>x\<in>set [show_page_action example_skill ''/skill/ui/g1'' ''g1'' PNone,
                    speak_action ''Hi'' True, clear_display_action].
             has_type ''clear_display'' x)
         \<and> (\<exists>y\<in>set [show_page_action example_skill ''/skill/ui/g1'' ''g1'' PNone,
                      speak_action ''Hi'' True, clear_display_action].
               has_type ''wait_for_idle'' y))"
proof -
  have h: "build_actions example_env example_skill
     (default_args\<lparr>gui := Some (Single (Name ''g1'')), speak := Some ''Hi''\<rparr>) False
   = Inr [show_page_action example_skill ''/skill/ui/g1'' ''g1'' PNone,
          speak_action ''Hi'' True, clear_display_action]"
    by (simp add: compile_defs)
  show ?thesis using h build_actions_clear_once [OF h] by simp
qed

text \<open>
  C2, as amended. With \<^verbatim>\<open>expect_response=True\<close> the returned list holds the
  \<^verbatim>\<open>get_response\<close> action, and it holds a \<^verbatim>\<open>wait_for_idle\<close> action exactly when
  \<^verbatim>\<open>gui_clear\<close> was given as \<^verbatim>\<open>ON_IDLE\<close>: only \<^verbatim>\<open>AUTO\<close> is degraded to
  \<^verbatim>\<open>NEVER\<close>, an explicit policy is kept.
\<close>

theorem build_actions_expect_response:
  assumes "build_actions e s a True = Inr acts"
  shows "get_response_action \<in> set acts
     \<and> ((\<exists>x\<in>set acts. has_type ''wait_for_idle'' x) \<longleftrightarrow> gui_clear a = ON_IDLE)"
proof -
  have "filter (has_type ''get_response'') acts = [get_response_action]"
    using filter_response_build [OF assms] by (simp add: response_part_def)
  then have "get_response_action \<in> set (filter (has_type ''get_response'') acts)"
    by simp
  then have 1: "get_response_action \<in> set acts" by simp
  have 2: "(\<exists>x\<in>set acts. has_type ''wait_for_idle'' x) \<longleftrightarrow> gui_clear a = ON_IDLE"
    unfolding mem_type_filter
    by (simp add: filter_idle_build [OF assms] resolved_expect_response)
  from 1 2 show ?thesis by simp
qed

theorem build_actions_expect_response_witness:
  "build_actions example_env example_skill (default_args\<lparr>speak := Some ''Which one?''\<rparr>) True
     = Inr [speak_action ''Which one?'' True, get_response_action]
   \<and> get_response_action \<in> set [speak_action ''Which one?'' True, get_response_action]
   \<and> ((\<exists>x\<in>set [speak_action ''Which one?'' True, get_response_action].
          has_type ''wait_for_idle'' x)
        \<longleftrightarrow> gui_clear (default_args\<lparr>speak := Some ''Which one?''\<rparr>) = ON_IDLE)"
proof -
  have h: "build_actions example_env example_skill
      (default_args\<lparr>speak := Some ''Which one?''\<rparr>) True
     = Inr [speak_action ''Which one?'' True, get_response_action]"
    by (simp add: compile_defs)
  show ?thesis using h build_actions_expect_response [OF h] by simp
qed

text \<open>
  C2 as stated fails for an explicit \<^verbatim>\<open>ON_IDLE\<close>: the list ends with \<^verbatim>\<open>wait_for_idle\<close>.
\<close>

theorem build_actions_expect_response_counterexample:
  "build_actions example_env example_skill (default_args\<lparr>gui_clear := ON_IDLE\<rparr>) True
     = Inr [get_response_action, wait_for_idle_action]
   \<and> has_type ''wait_for_idle'' wait_for_idle_action"
  by (simp add: compile_defs has_type_def)

text \<open>
  C4, as amended. With \<^verbatim>\<open>gui_clear=AUTO\<close> and \<^verbatim>\<open>expect_response=False\<close>: when pages
  were shown and there was speech (a dialog or a literal \<^verbatim>\<open>speak\<close>), the list ends with
  \<^verbatim>\<open>clear_display\<close>; when pages were shown without speech, it ends with
  \<^verbatim>\<open>wait_for_idle\<close>; without pages it holds neither action. And
  \<^verbatim>\<open>_build_actions(speak="Hello", gui_clear=AUTO)\<close> is exactly the one \<^verbatim>\<open>speak\<close> action.
\<close>

theorem build_actions_auto_policy:
  "(build_actions e s a False = Inr acts \<and> gui_clear a = AUTO \<longrightarrow>
      (as_list (gui a) \<noteq> [] \<and> (as_list (dialog a) \<noteq> [] \<or> speak a \<noteq> None)
         \<longrightarrow> acts \<noteq> [] \<and> last acts = clear_display_action)
    \<and> (as_list (gui a) \<noteq> [] \<and> as_list (dialog a) = [] \<and> speak a = None
         \<longrightarrow> acts \<noteq> [] \<and> last acts = wait_for_idle_action)
    \<and> (as_list (gui a) = []
         \<longrightarrow> (\<forall>x\<in>set acts. \<not> has_type ''clear_display'' x \<and> \<not> has_type ''wait_for_idle'' x)))
   \<and> build_actions e s (default_args\<lparr>speak := Some ''Hello''\<rparr>) False
       = Inr [speak_action ''Hello'' True]"
proof -
  have main: "(as_list (gui a) \<noteq> [] \<and> (as_list (dialog a) \<noteq> [] \<or> speak a \<noteq> None)
         \<longrightarrow> acts \<noteq> [] \<and> last acts = clear_display_action)
    \<and> (as_list (gui a) \<noteq> [] \<and> as_list (dialog a) = [] \<and> speak a = None
         \<longrightarrow> acts \<noteq> [] \<and> last acts = wait_for_idle_action)
    \<and> (as_list (gui a) = []
         \<longrightarrow> (\<forall>x\<in>set acts. \<not> has_type ''clear_display'' x \<and> \<not> has_type ''wait_for_idle'' x))"
    if b: "build_actions e s a False = Inr acts" and auto: "gui_clear a = AUTO"
  proof -
    from build_actions_trailing [OF b] obtain before where
      acts: "acts = before @ trailing a False" by blast
    have 1: "acts \<noteq> [] \<and> last acts = clear_display_action"
      if "as_list (gui a) \<noteq> []" "as_list (dialog a) \<noteq> [] \<or> speak a \<noteq> None"
      using that unfolding acts by (auto simp add: trailing_def resolved_auto [OF auto])
    have 2: "acts \<noteq> [] \<and> last acts = wait_for_idle_action"
      if "as_list (gui a) \<noteq> []" "as_list (dialog a) = []" "speak a = None"
      using that unfolding acts by (simp add: trailing_def resolved_auto [OF auto])
    have 3: "\<forall>x\<in>set acts. \<not> has_type ''clear_display'' x \<and> \<not> has_type ''wait_for_idle'' x"
      if "as_list (gui a) = []"
    proof -
      have "filter (has_type ''clear_display'') acts = []"
        using that by (simp add: filter_clear_build [OF b] resolved_auto [OF auto])
      moreover have "filter (has_type ''wait_for_idle'') acts = []"
        using that by (simp add: filter_idle_build [OF b] resolved_auto [OF auto])
      ultimately show ?thesis by (simp add: filter_empty_conv)
    qed
    from 1 2 3 show ?thesis by blast
  qed
  from main build_actions_hello show ?thesis by blast
qed

theorem build_actions_auto_policy_witness:
  "(build_actions example_env example_skill
      (default_args\<lparr>gui := Some (Single (Name ''g1'')), dialog := Some (Single (Name ''d1''))\<rparr>)
      False
    = Inr [show_page_action example_skill ''/skill/ui/g1'' ''g1'' PNone,
           speak_dialog_action ''d1'' ''d1'' True, clear_display_action]
    \<and> last [show_page_action example_skill ''/skill/ui/g1'' ''g1'' PNone,
           speak_dialog_action ''d1'' ''d1'' True, clear_display_action] = clear_display_action)
   \<and> (build_actions example_env example_skill
      (default_args\<lparr>gui := Some (Sequence [Name ''page1'', Name ''page2''])\<rparr>) False
    = Inr [show_page_action example_skill ''/skill/ui/page1'' ''page1'' PNone,
           show_page_action example_skill ''/skill/ui/page2'' ''page2'' PNone,
           wait_for_idle_action]
    \<and> last [show_page_action example_skill ''/skill/ui/page1'' ''page1'' PNone,
           show_page_action example_skill ''/skill/ui/page2'' ''page2'' PNone,
           wait_for_idle_action] = wait_for_idle_action)
   \<and> (build_actions example_env example_skill (default_args\<lparr>speak := Some ''Hello''\<rparr>) False
       = Inr [speak_action ''Hello'' True]
    \<and> \<not> has_type ''clear_display'' (speak_action ''Hello'' True)
    \<and> \<not> has_type ''wait_for_idle'' (speak_action ''Hello'' True))"
proof -
  let ?a1 = "default_args\<lparr>gui := Some (Single (Name ''g1'')),
      dialog := Some (Single (Name ''d1''))\<rparr>"
  let ?a2 = "default_args\<lparr>gui := Some (Sequence [Name ''page1'', Name ''page2''])\<rparr>"
  let ?a3 = "default_args\<lparr>speak := Some ''Hello''\<rparr>"
  have h1: "build_actions example_env example_skill ?a1 False
    = Inr [show_page_action example_skill ''/skill/ui/g1'' ''g1'' PNone,
           speak_dialog_action ''d1'' ''d1'' True, clear_display_action]"
    by (simp add: compile_defs)
  have h2: "build_actions example_env example_skill ?a2 False
    = Inr [show_page_action example_skill ''/skill/ui/page1'' ''page1'' PNone,
           show_page_action example_skill ''/skill/ui/page2'' ''page2'' PNone,
           wait_for_idle_action]"
    by (simp add: compile_defs)
  have g: "gui_clear ?a1 = AUTO" "gui_clear ?a2 = AUTO" "gui_clear ?a3 = AUTO"
    by (simp_all add: default_args_def)
  have l1: "as_list (gui ?a1) \<noteq> []" "as_list (dialog ?a1) \<noteq> []"
    and l2: "as_list (gui ?a2) \<noteq> []" "as_list (dialog ?a2) = []" "speak ?a2 = None"
    and l3: "as_list (gui ?a3) = []"
    by (simp_all add: default_args_def as_list_def)
  note inst = build_actions_auto_policy [where e = example_env and s = example_skill]
  from inst [where a = ?a1] h1 g(1) l1
  have c1: "last [show_page_action example_skill ''/skill/ui/g1'' ''g1'' PNone,
           speak_dialog_action ''d1'' ''d1'' True, clear_display_action] = clear_display_action"
    by simp
  from inst [where a = ?a2] h2 g(2) l2
  have c2: "last [show_page_action example_skill ''/skill/ui/page1'' ''page1'' PNone,
           show_page_action example_skill ''/skill/ui/page2'' ''page2'' PNone,
           wait_for_idle_action] = wait_for_idle_action"
    by simp
  from inst [where a = ?a3 and acts = "[speak_action ''Hello'' True]"] g(3) l3
  have c3: "build_actions example_env example_skill ?a3 False = Inr [speak_action ''Hello'' True]
    \<and> \<not> has_type ''clear_display'' (speak_action ''Hello'' True)
    \<and> \<not> has_type ''wait_for_idle'' (speak_action ''Hello'' True)"
    by simp
  from h1 h2 c1 c2 c3 show ?thesis by blast
qed

text \<open>
  C4 as stated fails when a response is expected: pages were shown and there was speech,
  the policy is \<^verbatim>\<open>AUTO\<close>, and no \<^verbatim>\<open>clear_display\<close> follows.
\<close>

theorem build_actions_auto_policy_counterexample:
  "gui_clear (default_args\<lparr>gui := Some (Single (Name ''g1'')), speak := Some ''Hi''\<rparr>) = AUTO
   \<and> build_actions example_env example_skill
     (default_args\<lparr>gui := Some (Single (Name ''g1'')), speak := Some ''Hi''\<rparr>) True
   = Inr [show_page_action example_skill ''/skill/ui/g1'' ''g1'' PNone,
          speak_action ''Hi'' True, get_response_action]
   \<and> \<not> has_type ''clear_display''
         (last [show_page_action example_skill ''/skill/ui/g1'' ''g1'' PNone,
            speak_action ''Hi'' True, get_response_action])"
  by (simp add: compile_defs has_type_def)

text \<open>
  C6, as amended. A message attached with \<^verbatim>\<open>at_start\<close> is the first element of the
  list. A message attached with \<^verbatim>\<open>at_end\<close> comes after every other action except
  the \<^verbatim>\<open>stream_music\<close> action (when a music URI is given), the \<^verbatim>\<open>get_response\<close>
  action (when a response is expected) and the trailing \<^verbatim>\<open>clear_display\<close> or
  \<^verbatim>\<open>wait_for_idle\<close>, which follow it in this order; so it is the last element before
  the trailing action when there is no music URI and no response is expected.
\<close>

theorem build_actions_message_position:
  "(build_actions e s a er = Inr acts \<and> message a = Some m \<and> message_send a = SEND_AT_START
      \<longrightarrow> acts \<noteq> [] \<and> hd acts = message_action_at_start s m)
   \<and> (build_actions e s a er = Inr acts \<and> message a = Some m \<and> message_send a = SEND_AT_END
      \<longrightarrow> (\<exists>before.
             acts = before @ [message_action_at_end s m (message_delay a)]
                    @ music_part a @ response_part er @ trailing a er
             \<and> (\<forall>x\<in>set before. \<not> has_type ''message'' x)
             \<and> (\<not> truthy (music_uri a) \<and> \<not> er
                  \<longrightarrow> acts = before @ [message_action_at_end s m (message_delay a)]
                             @ trailing a er)))"
proof -
  have first: "acts \<noteq> [] \<and> hd acts = message_action_at_start s m"
    if b: "build_actions e s a er = Inr acts" and m: "message a = Some m"
      and p: "message_send a = SEND_AT_START"
  proof -
    from build_actions_Inr [OF b] obtain block where
      "acts = pre_actions s a er @ block @ post_actions s a er" by blast
    then show ?thesis using m p by (simp add: pre_actions_def start_part_def)
  qed
  have final: "\<exists>before.
             acts = before @ [message_action_at_end s m (message_delay a)]
                    @ music_part a @ response_part er @ trailing a er
             \<and> (\<forall>x\<in>set before. \<not> has_type ''message'' x)
             \<and> (\<not> truthy (music_uri a) \<and> \<not> er
                  \<longrightarrow> acts = before @ [message_action_at_end s m (message_delay a)]
                             @ trailing a er)"
    if b: "build_actions e s a er = Inr acts" and m: "message a = Some m"
      and p: "message_send a = SEND_AT_END"
  proof -
    from build_actions_Inr [OF b] obtain block where
      block: "interleave e s (speak_wait a)
                (zip_longest (as_list (dialog a)) (as_list (gui a))) [] = Inr block"
      and acts: "acts = pre_actions s a er @ block @ post_actions s a er" by blast
    let ?before = "pre_actions s a er @ block @ speak_part a"
    have sp: "start_part s a = []" using m p by (simp add: start_part_def)
    have 1: "acts = ?before @ [message_action_at_end s m (message_delay a)]
                    @ music_part a @ response_part er @ trailing a er"
      unfolding acts using m p by (simp add: post_actions_def end_part_def)
    have 2: "\<forall>x\<in>set ?before. \<not> has_type ''message'' x"
      using pre_no_message [OF sp] block_no_message [OF block]
      by (auto simp: speak_part_def has_type_def split: option.splits)
    have 3: "\<not> truthy (music_uri a) \<and> \<not> er
        \<longrightarrow> acts = ?before @ [message_action_at_end s m (message_delay a)] @ trailing a er"
      using 1 by (simp add: music_part_def response_part_def)
    from 1 2 3 show ?thesis by blast
  qed
  from first final show ?thesis by blast
qed

theorem build_actions_message_position_witness:
  "(build_actions example_env example_skill
      (default_args\<lparr>speak := Some ''Hi'', message := Some example_message\<rparr>) False
    = Inr [message_action_at_start example_skill example_message, speak_action ''Hi'' True]
    \<and> hd [message_action_at_start example_skill example_message, speak_action ''Hi'' True]
        = message_action_at_start example_skill example_message)
   \<and> (build_actions example_env example_skill
      (default_args\<lparr>speak := Some ''Hi'', gui := Some (Single (Name ''g1'')),
         message := Some example_message, message_send := SEND_AT_END\<rparr>) False
    = Inr [show_page_action example_skill ''/skill/ui/g1'' ''g1'' PNone, speak_action ''Hi'' True,
           message_action_at_end example_skill example_message 0, clear_display_action]
    \<and> (\<exists>before.
          [show_page_action example_skill ''/skill/ui/g1'' ''g1'' PNone, speak_action ''Hi'' True,
           message_action_at_end example_skill example_message 0, clear_display_action]
          = before @ [message_action_at_end example_skill example_message 0]
            @ [clear_display_action]))"
proof -
  let ?a1 = "default_args\<lparr>speak := Some ''Hi'', message := Some example_message\<rparr>"
  let ?a2 = "default_args\<lparr>speak := Some ''Hi'', gui := Some (Single (Name ''g1'')),
         message := Some example_message, message_send := SEND_AT_END\<rparr>"
  have h1: "build_actions example_env example_skill ?a1 False
    = Inr [message_action_at_start example_skill example_message, speak_action ''Hi'' True]"
    by (simp add: compile_defs)
  have h2: "build_actions example_env example_skill ?a2 False
    = Inr [show_page_action example_skill ''/skill/ui/g1'' ''g1'' PNone, speak_action ''Hi'' True,
           message_action_at_end example_skill example_message 0, clear_display_action]"
    by (simp add: compile_defs)
  have m1: "message ?a1 = Some example_message" "message_send ?a1 = SEND_AT_START"
    by (simp_all add: default_args_def)
  have m2: "message ?a2 = Some example_message" "message_send ?a2 = SEND_AT_END"
    "message_delay ?a2 = 0" "\<not> truthy (music_uri ?a2)"
    by (simp_all add: default_args_def truthy_def)
  have t2: "trailing ?a2 False = [clear_display_action]"
    by (simp add: trailing_def resolved_gui_clear_def initial_gui_clear_def default_args_def
        as_list_def)
  from h1 m1 build_actions_message_position [of example_env example_skill ?a1 False
        "[message_action_at_start example_skill example_message, speak_action ''Hi'' True]"
        example_message]
  have c1: "hd [message_action_at_start example_skill example_message, speak_action ''Hi'' True]
        = message_action_at_start example_skill example_message"
    by simp
  from h2 m2 t2 build_actions_message_position [of example_env example_skill ?a2 False
        "[show_page_action example_skill ''/skill/ui/g1'' ''g1'' PNone, speak_action ''Hi'' True,
           message_action_at_end example_skill example_message 0, clear_display_action]"
        example_message]
  have c2: "\<exists>before.
          [show_page_action example_skill ''/skill/ui/g1'' ''g1'' PNone, speak_action ''Hi'' True,
           message_action_at_end example_skill example_message 0, clear_display_action]
          = before @ [message_action_at_end example_skill example_message 0]
            @ [clear_display_action]"
    by auto
  from h1 h2 c1 c2 show ?thesis by blast
qed

text \<open>
  C6 as stated fails for \<^verbatim>\<open>at_end\<close> with a music URI: there is no trailing action, and
  the message is not the last element, the \<^verbatim>\<open>stream_music\<close> action is.
\<close>

theorem build_actions_message_position_counterexample:
  "build_actions example_env example_skill
     (default_args\<lparr>message := Some example_message, message_send := SEND_AT_END,
        music_uri := Some ''http://radio''\<rparr>) False
   = Inr [message_action_at_end example_skill example_message 0,
          stream_music_action ''http://radio'']
   \<and> has_type ''stream_music''
       (last [message_action_at_end example_skill example_message 0,
              stream_music_action ''http://radio''])"
  by (simp add: compile_defs has_type_def)

text \<open>
  C9. Every message action of the list, at the start or at the end, carries as payload
  the current session id overlaid with the attached message's own data: a
  \<^verbatim>\<open>"mycroft_session_id"\<close> of the message overrides the current session id, and
  without one the current session id is carried.
\<close>

theorem message_action_payload:
  assumes "build_actions e s a er = Inr acts" and "message a = Some m"
  shows "(\<exists>x\<in>set acts. has_type ''message'' x)
     \<and> (\<forall>x\<in>set acts. has_type ''message'' x \<longrightarrow>
          action_data x = [''mycroft_session_id'' \<mapsto> mycroft_session_id s] ++ data m
          \<and> (\<forall>v. data m ''mycroft_session_id'' = Some v
                \<longrightarrow> action_data x ''mycroft_session_id'' = Some v)
          \<and> (data m ''mycroft_session_id'' = None
                \<longrightarrow> action_data x ''mycroft_session_id'' = Some (mycroft_session_id s)))"
proof -
  have f: "filter (has_type ''message'') acts =
     (if message_send a = SEND_AT_START then [message_action_at_start s m]
      else [message_action_at_end s m (message_delay a)])"
    using filter_message_build [OF assms(1)] message_parts [OF assms(2)] by simp
  have ex: "\<exists>x\<in>set acts. has_type ''message'' x"
    unfolding mem_type_filter using f by simp
  have all: "action_data x = [''mycroft_session_id'' \<mapsto> mycroft_session_id s] ++ data m"
    if "x \<in> set acts" "has_type ''message'' x" for x
  proof -
    from that have "x \<in> set (filter (has_type ''message'') acts)" by simp
    then show ?thesis unfolding f by (auto split: if_splits)
  qed
  show ?thesis
    using ex all by (auto simp: map_add_def)
qed

theorem message_action_payload_witness:
  "(build_actions example_env example_skill
     (default_args\<lparr>message := Some example_message\<rparr>) False
     = Inr [message_action_at_start example_skill example_message]
    \<and> data example_message ''mycroft_session_id'' = Some (PStr ''own'')
    \<and> action_data (message_action_at_start example_skill example_message) ''mycroft_session_id''
        = Some (PStr ''own''))
   \<and> (build_actions example_env (example_skill\<lparr>mycroft_session_id := PStr ''R''\<rparr>)
     (default_args\<lparr>message := Some plain_message, message_send := SEND_AT_END\<rparr>) False
     = Inr [message_action_at_end (example_skill\<lparr>mycroft_session_id := PStr ''R''\<rparr>)
              plain_message 0]
    \<and> data plain_message ''mycroft_session_id'' = None
    \<and> action_data (message_action_at_end (example_skill\<lparr>mycroft_session_id := PStr ''R''\<rparr>)
          plain_message 0) ''mycroft_session_id''
        = Some (PStr ''R''))"
proof -
  let ?a1 = "default_args\<lparr>message := Some example_message\<rparr>"
  let ?a2 = "default_args\<lparr>message := Some plain_message, message_send := SEND_AT_END\<rparr>"
  let ?s2 = "example_skill\<lparr>mycroft_session_id := PStr ''R''\<rparr>"
  have h1: "build_actions example_env example_skill ?a1 False
     = Inr [message_action_at_start example_skill example_message]"
    by (simp add: compile_defs)
  have h2: "build_actions example_env ?s2 ?a2 False
     = Inr [message_action_at_end ?s2 plain_message 0]"
    by (simp add: compile_defs)
  have m1: "message ?a1 = Some example_message" and m2: "message ?a2 = Some plain_message"
    by (simp_all add: default_args_def)
  have d1: "data example_message ''mycroft_session_id'' = Some (PStr ''own'')"
    by (simp add: example_message_def)
  have d2: "data plain_message ''mycroft_session_id'' = None"
    by (simp add: plain_message_def)
  have t: "has_type ''message'' (message_action_at_start example_skill example_message)"
    "has_type ''message'' (message_action_at_end ?s2 plain_message 0)"
    by (simp_all add: has_type_def)
  from message_action_payload [OF h1 m1] d1 t(1)
  have c1: "action_data (message_action_at_start example_skill example_message)
      ''mycroft_session_id'' = Some (PStr ''own'')"
    by simp
  from message_action_payload [OF h2 m2] d2 t(2)
  have c2: "action_data (message_action_at_end ?s2 plain_message 0) ''mycroft_session_id''
      = Some (PStr ''R'')"
    by simp
  from h1 h2 d1 d2 c1 c2 show ?thesis by blast
qed

text \<open>
  C10. \<^verbatim>\<open>end_session\<close> has no \<^verbatim>\<open>expect_response\<close> parameter and compiles with
  \<^verbatim>\<open>expect_response=False\<close>: the action list of the \<^verbatim>\<open>mycroft.session.end\<close> envelope
  it returns, and of the one \<^verbatim>\<open>abort_session\<close> returns, holds no \<^verbatim>\<open>get_response\<close>
  action.
\<close>

theorem end_session_no_get_response:
  "(end_session e s a session_id = Inr m \<longrightarrow>
      msg_type m = ''mycroft.session.end''
      \<and> (\<exists>acts. build_actions e s a False = Inr acts
            \<and> data m ''actions'' = Some (PList acts)
            \<and> (\<forall>x\<in>set acts. \<not> has_type ''get_response'' x)))
   \<and> (abort_session e s = Inr m \<longrightarrow>
      msg_type m = ''mycroft.session.end''
      \<and> data m ''aborted'' = Some (PBool True)
      \<and> (\<exists>acts. data m ''actions'' = Some (PList acts)
            \<and> (\<forall>x\<in>set acts. \<not> has_type ''get_response'' x)))"
proof -
  have 1: "msg_type m = ''mycroft.session.end''
      \<and> (\<exists>acts. build_actions e s a False = Inr acts
            \<and> data m ''actions'' = Some (PList acts)
            \<and> (\<forall>x\<in>set acts. \<not> has_type ''get_response'' x))"
    if h: "end_session e s a session_id = Inr m"
  proof (cases "build_actions e s a False")
    case (Inl err)
    with h show ?thesis by (simp add: end_session_def)
  next
    case (Inr acts)
    have "filter (has_type ''get_response'') acts = []"
      using filter_response_build [OF Inr] by (simp add: response_part_def)
    then have "\<forall>x\<in>set acts. \<not> has_type ''get_response'' x"
      by (simp add: filter_empty_conv)
    with h Inr show ?thesis by (auto simp: end_session_def)
  qed
  have 2: "msg_type m = ''mycroft.session.end''
      \<and> data m ''aborted'' = Some (PBool True)
      \<and> (\<exists>acts. data m ''actions'' = Some (PList acts)
            \<and> (\<forall>x\<in>set acts. \<not> has_type ''get_response'' x))"
    if h: "abort_session e s = Inr m"
    using h by (auto simp: abort_session_def end_session_default)
  from 1 2 show ?thesis by blast
qed

theorem end_session_no_get_response_witness:
  "(\<exists>m. end_session example_env example_skill (default_args\<lparr>speak := Some ''Bye''\<rparr>) None = Inr m
      \<and> msg_type m = ''mycroft.session.end''
      \<and> data m ''actions'' = Some (PList [speak_action ''Bye'' True]))
   \<and> (\<exists>m. abort_session example_env example_skill = Inr m
      \<and> data m ''aborted'' = Some (PBool True)
      \<and> data m ''actions'' = Some (PList []))"
proof -
  have b: "build_actions example_env example_skill (default_args\<lparr>speak := Some ''Bye''\<rparr>) False
    = Inr [speak_action ''Bye'' True]"
    by (simp add: compile_defs)
  obtain m1 where m1: "end_session example_env example_skill
      (default_args\<lparr>speak := Some ''Bye''\<rparr>) None = Inr m1"
    by (simp add: end_session_def b)
  obtain m2 where m2: "abort_session example_env example_skill = Inr m2"
    by (simp add: abort_session_def end_session_default)
  have d2: "data m2 ''actions'' = Some (PList [])"
    using m2 by (auto simp: abort_session_def end_session_default)
  from end_session_no_get_response [of example_env example_skill
      "default_args\<lparr>speak := Some ''Bye''\<rparr>" None m1] m1 b
  have c1: "msg_type m1 = ''mycroft.session.end''
      \<and> data m1 ''actions'' = Some (PList [speak_action ''Bye'' True])"
    by auto
  from end_session_no_get_response [of example_env example_skill default_args None m2] m2
  have c2: "data m2 ''aborted'' = Some (PBool True)" by simp
  from m1 m2 c1 c2 d2 show ?thesis by blast
qed

text \<open>
  C8. A \<^verbatim>\<open>mycroft.skill-response\<close> whose skill id is not this skill's, or whose session
  id is not the current one, is dropped: whatever the reply handler is, the wrapper returns
  normally with the skill, and so the bus, exactly as they were; no message was emitted and
  the reply handler had no effect.
\<close>

theorem handle_skill_response_mismatch:
  assumes "dict_get (data m) ''skill_id'' \<noteq> PStr (skill_id s)
     \<or> dict_get (data m) ''mycroft_session_id'' \<noteq> mycroft_session_id s"
  shows "handle_skill_response e raw_utterance m s = (Inr (), s)"
  using assms by (auto simp: handle_skill_response_def)

theorem handle_skill_response_mismatch_witness:
  "dict_get (data foreign_reply) ''skill_id'' \<noteq> PStr (skill_id example_skill)
   \<and> handle_skill_response example_env marking_reply_handler foreign_reply example_skill
       = (Inr (), example_skill)
   \<and> map msg_type (bus (snd
       (handle_skill_response example_env marking_reply_handler own_reply example_skill)))
       = [''called'', ''mycroft.session.end'']"
proof -
  have h: "dict_get (data foreign_reply) ''skill_id'' \<noteq> PStr (skill_id example_skill)"
    by (simp add: dict_get_def foreign_reply_def example_skill_def)
  have own: "map msg_type (bus (snd
       (handle_skill_response example_env marking_reply_handler own_reply example_skill)))
       = [''called'', ''mycroft.session.end'']"
    by (simp add: handle_skill_response_def dict_get_def own_reply_def example_skill_def
        first_utterance_def acknowledge_def example_env_def truthy_def
        marking_reply_handler_def emit_result_None)
  from h own handle_skill_response_mismatch [of foreign_reply example_skill example_env
      marking_reply_handler]
  show ?thesis by simp
qed

text \<open>
  C7. \<^verbatim>\<open>continue_session\<close> called without a session id returns a
  \<^verbatim>\<open>mycroft.session.continue\<close> message that carries the skill's current session id;
  and \<^verbatim>\<open>_handle_intent\<close> has made the session id \<open>R\<close> of the inbound request the current
  one before it calls the handler. So the envelope that a handler builds this way, and that
  the wrapper then emits, carries \<open>R\<close>.
\<close>

theorem continue_session_request_id:
  "(continue_session e s a er None st = Inr r \<longrightarrow>
      msg_type r = ''mycroft.session.continue''
      \<and> data r ''mycroft_session_id'' = Some (mycroft_session_id s))
   \<and> (config_sounds e \<noteq> None
      \<and> build_actions e (snd (acknowledge e
            (s\<lparr>mycroft_session_id := dict_get (data m) ''mycroft_session_id''\<rparr>))) a er = Inr acts
      \<longrightarrow> (\<exists>s'. handle_intent e (continuing_handler e a er st) m s = (Inr (), s')
            \<and> bus s' \<noteq> []
            \<and> msg_type (last (bus s')) = ''mycroft.session.continue''
            \<and> data (last (bus s')) ''actions'' = Some (PList acts)
            \<and> data (last (bus s')) ''mycroft_session_id''
                = Some (dict_get (data m) ''mycroft_session_id'')))"
proof -
  let ?s0 = "s\<lparr>mycroft_session_id := dict_get (data m) ''mycroft_session_id''\<rparr>"
  let ?s1 = "snd (acknowledge e ?s0)"
  have 2: "\<exists>s'. handle_intent e (continuing_handler e a er st) m s = (Inr (), s')
            \<and> bus s' \<noteq> []
            \<and> msg_type (last (bus s')) = ''mycroft.session.continue''
            \<and> data (last (bus s')) ''actions'' = Some (PList acts)
            \<and> data (last (bus s')) ''mycroft_session_id''
                = Some (dict_get (data m) ''mycroft_session_id'')"
    if ack: "config_sounds e \<noteq> None" and b: "build_actions e ?s1 a er = Inr acts"
  proof -
    obtain r where r: "continue_session e ?s1 a er None st = Inr r"
      and ra: "data r ''actions'' = Some (PList acts)"
      using b by (simp add: continue_session_def)
    have sid: "mycroft_session_id ?s1 = dict_get (data m) ''mycroft_session_id''"
      by (simp add: acknowledge_fields)
    have "continuing_handler e a er st (unmunge_message e m (skill_id s)) ?s1
        = (Inr (Some r), ?s1)"
      using r by (simp add: continuing_handler_def)
    with ack have "handle_intent e (continuing_handler e a er st) m s
        = (Inr (), ?s1\<lparr>bus := bus ?s1 @ [r]\<rparr>)"
      by (rule handle_intent_returned)
    then show ?thesis
      using continue_session_id [OF r] ra sid by simp
  qed
  from continue_session_id 2 show ?thesis by blast
qed

theorem continue_session_request_id_witness:
  "config_sounds example_env \<noteq> None
   \<and> dict_get (data example_request) ''mycroft_session_id'' = PStr ''R''
   \<and> (\<exists>s'. handle_intent example_env
          (continuing_handler example_env (default_args\<lparr>speak := Some ''More?''\<rparr>) True PNone)
          example_request example_skill = (Inr (), s')
        \<and> msg_type (last (bus s')) = ''mycroft.session.continue''
        \<and> data (last (bus s')) ''actions''
            = Some (PList [speak_action ''More?'' True, get_response_action])
        \<and> data (last (bus s')) ''mycroft_session_id'' = Some (PStr ''R''))"
proof -
  have c: "config_sounds example_env \<noteq> None" by (simp add: example_env_def)
  have R: "dict_get (data example_request) ''mycroft_session_id'' = PStr ''R''"
    by (simp add: dict_get_def example_request_def)
  have b: "build_actions example_env (snd (acknowledge example_env
        (example_skill\<lparr>mycroft_session_id
           := dict_get (data example_request) ''mycroft_session_id''\<rparr>)))
        (default_args\<lparr>speak := Some ''More?''\<rparr>) True
      = Inr [speak_action ''More?'' True, get_response_action]"
    by (simp add: build_actions_def Let_def default_args_def as_list_def truthy_def)
  from continue_session_request_id [of example_env example_skill
      "default_args\<lparr>speak := Some ''More?''\<rparr>" True PNone _ example_request
      "[speak_action ''More?'' True, get_response_action]"] c b R
  show ?thesis by auto
qed

text \<open>
  C1, as amended. When the handler raises and the error announcement compiles (the
  \<^verbatim>\<open>skill.error\<close> dialog renders), the wrapper emits two envelopes after whatever the
  handler emitted: first a \<^verbatim>\<open>mycroft.session.start\<close> with a fresh session id that
  speaks the error, then one \<^verbatim>\<open>mycroft.session.end\<close> with no actions and the
  current session id, which is the last message on the bus.
\<close>

theorem handle_intent_handler_raises:
  assumes "config_sounds e \<noteq> None"
    and "handler (unmunge_message e m (skill_id s))
          (snd (acknowledge e (s\<lparr>mycroft_session_id := dict_get (data m) ''mycroft_session_id''\<rparr>)))
        = (Inl err, s2)"
    and "render e ''skill.error'' (PDict [''skill'' \<mapsto> PStr (camel_case_split e (name s2))])
        = Inr utterance"
  shows "\<exists>s3. handle_intent e handler m s = (Inr (), s3)
     \<and> bus s3 = bus s2 @
         [\<lparr>msg_type = ''mycroft.session.start'',
           data = [''mycroft_session_id'' \<mapsto> PStr (uuid4 e (uuid_count s2)),
                   ''skill_id'' \<mapsto> PStr (skill_id s2),
                   ''actions'' \<mapsto> PList [speak_dialog_action utterance ''skill.error'' True],
                   ''continue_session'' \<mapsto> PBool False]\<rparr>,
          \<lparr>msg_type = ''mycroft.session.end'',
           data = [''mycroft_session_id'' \<mapsto> mycroft_session_id s2,
                   ''skill_id'' \<mapsto> PStr (skill_id s2),
                   ''actions'' \<mapsto> PList []]\<rparr>]"
proof -
  let ?s0 = "s\<lparr>mycroft_session_id := dict_get (data m) ''mycroft_session_id''\<rparr>"
  obtain u s1 where a: "acknowledge e ?s0 = (u, s1)" by (cases "acknowledge e ?s0")
  have u: "u = Inr ()" using acknowledge_ok [OF assms(1), of ?s0] a by simp
  have id: "skill_id s1 = skill_id s" using acknowledge_fields(1) [of e ?s0] a by simp
  have h: "handler (unmunge_message e m (skill_id s)) s1 = (Inl err, s2)"
    using assms(2) a by simp
  show ?thesis
    using a u id h
    by (simp add: handle_intent_def emit_start_session_skill_error [OF assms(3)]
        emit_result_None)
qed

theorem handle_intent_handler_raises_witness:
  "config_sounds example_env \<noteq> None
   \<and> raising_handler (unmunge_message example_env example_request (skill_id example_skill))
        (snd (acknowledge example_env (example_skill\<lparr>mycroft_session_id
           := dict_get (data example_request) ''mycroft_session_id''\<rparr>)))
      = (Inl (Exception ''boom''), example_skill\<lparr>mycroft_session_id := PStr ''R''\<rparr>)
   \<and> (\<exists>s3. handle_intent example_env raising_handler example_request example_skill = (Inr (), s3)
        \<and> map msg_type (bus s3) = [''mycroft.session.start'', ''mycroft.session.end'']
        \<and> data (last (bus s3)) ''mycroft_session_id'' = Some (PStr ''R''))"
proof -
  have c: "config_sounds example_env \<noteq> None" by (simp add: example_env_def)
  have h: "raising_handler (unmunge_message example_env example_request (skill_id example_skill))
        (snd (acknowledge example_env (example_skill\<lparr>mycroft_session_id
           := dict_get (data example_request) ''mycroft_session_id''\<rparr>)))
      = (Inl (Exception ''boom''), example_skill\<lparr>mycroft_session_id := PStr ''R''\<rparr>)"
    by (simp add: raising_handler_def acknowledge_def example_env_def truthy_def dict_get_def
        example_request_def)
  have r: "render example_env ''skill.error''
        (PDict [''skill'' \<mapsto> PStr (camel_case_split example_env
           (name (example_skill\<lparr>mycroft_session_id := PStr ''R''\<rparr>)))])
      = Inr ''skill.error''"
    by (simp add: example_env_def)
  from c h r handle_intent_handler_raises [of example_env raising_handler example_request
      example_skill "Exception ''boom''" "example_skill\<lparr>mycroft_session_id := PStr ''R''\<rparr>"
      "''skill.error''"] have
    "\<exists>s3. handle_intent example_env raising_handler example_request example_skill = (Inr (), s3)
        \<and> map msg_type (bus s3) = [''mycroft.session.start'', ''mycroft.session.end'']
        \<and> data (last (bus s3)) ''mycroft_session_id'' = Some (PStr ''R'')"
    by (auto simp: example_skill_def)
  with c h show ?thesis by blast
qed

text \<open>
  C1 as stated fails: a handler that raises at once leaves two envelopes on a bus that was
  empty, and the first is a \<^verbatim>\<open>mycroft.session.start\<close>.
\<close>

theorem handle_intent_handler_raises_counterexample:
  "map msg_type (bus (snd
     (handle_intent example_env raising_handler example_request example_skill)))
   = [''mycroft.session.start'', ''mycroft.session.end'']"
  by (simp add: handle_intent_def acknowledge_def example_env_def truthy_def raising_handler_def
      emit_start_session_def skill_error_args_def default_args_def build_actions_def Let_def
      as_list_def show_gui_def speak_dialog_def emit_result_None example_skill_def)

text \<open>
  C5. The dialogs and the GUI pages are paired by position, the shorter sequence padded:
  when every page is found and every dialog renders, the loop contributes, for each
  position up to the length of the longer sequence, the \<^verbatim>\<open>show_page\<close> of the GUI item
  there (if any) and then the \<^verbatim>\<open>speak\<close> of the dialog item there (if any), one action
  for each item. For \<^verbatim>\<open>dialog=["d1","d2"]\<close> and \<^verbatim>\<open>gui=["g1"]\<close> the order is
  ShowPage(g1), Speak(d1), Speak(d2); with the default policy a \<^verbatim>\<open>clear_display\<close> follows.
\<close>

theorem build_actions_interleave:
  "(resolvable e s (as_list (dialog a)) (as_list (gui a)) \<longrightarrow>
      build_actions e s a er =
        Inr (pre_actions s a er
             @ paired_actions e s (speak_wait a) (as_list (dialog a)) (as_list (gui a))
             @ post_actions s a er)
      \<and> length (paired_actions e s (speak_wait a) (as_list (dialog a)) (as_list (gui a)))
          = length (as_list (dialog a)) + length (as_list (gui a)))
   \<and> (find_resource e s ''g1'' ''ui'' = Some path
      \<and> render e ''d1'' (PDict Map.empty) = Inr ua
      \<and> render e ''d2'' (PDict Map.empty) = Inr ub \<longrightarrow>
      build_actions e s
        (default_args\<lparr>dialog := Some (Sequence [Name ''d1'', Name ''d2'']),
           gui := Some (Sequence [Name ''g1''])\<rparr>) False
      = Inr [show_page_action s path ''g1'' PNone,
             speak_dialog_action ua ''d1'' True,
             speak_dialog_action ub ''d2'' True,
             clear_display_action])"
proof -
  have 1: "build_actions e s a er =
        Inr (pre_actions s a er
             @ paired_actions e s (speak_wait a) (as_list (dialog a)) (as_list (gui a))
             @ post_actions s a er)"
    if "resolvable e s (as_list (dialog a)) (as_list (gui a))"
    by (simp add: build_actions_decomp interleave_paired [OF that])
  have 2: "build_actions e s
        (default_args\<lparr>dialog := Some (Sequence [Name ''d1'', Name ''d2'']),
           gui := Some (Sequence [Name ''g1''])\<rparr>) False
      = Inr [show_page_action s path ''g1'' PNone,
             speak_dialog_action ua ''d1'' True,
             speak_dialog_action ub ''d2'' True,
             clear_display_action]"
    if "find_resource e s ''g1'' ''ui'' = Some path"
      "render e ''d1'' (PDict Map.empty) = Inr ua"
      "render e ''d2'' (PDict Map.empty) = Inr ub"
    using that
    by (simp add: build_actions_def Let_def default_args_def as_list_def truthy_def
        show_gui_def speak_dialog_def)
  from 1 2 length_paired_actions show ?thesis by blast
qed

theorem build_actions_interleave_witness:
  "resolvable example_env example_skill [Name ''d1'', Name ''d2''] [Name ''g1'']
   \<and> paired_actions example_env example_skill True [Name ''d1'', Name ''d2''] [Name ''g1'']
      = [show_page_action example_skill ''/skill/ui/g1'' ''g1'' PNone,
         speak_dialog_action ''d1'' ''d1'' True,
         speak_dialog_action ''d2'' ''d2'' True]
   \<and> length (paired_actions example_env example_skill True
        [Name ''d1'', Name ''d2''] [Name ''g1'']) = 3
   \<and> build_actions example_env example_skill
        (default_args\<lparr>dialog := Some (Sequence [Name ''d1'', Name ''d2'']),
           gui := Some (Sequence [Name ''g1''])\<rparr>) False
      = Inr [show_page_action example_skill ''/skill/ui/g1'' ''g1'' PNone,
             speak_dialog_action ''d1'' ''d1'' True,
             speak_dialog_action ''d2'' ''d2'' True,
             clear_display_action]"
proof -
  let ?a = "default_args\<lparr>dialog := Some (Sequence [Name ''d1'', Name ''d2'']),
           gui := Some (Sequence [Name ''g1''])\<rparr>"
  have r: "resolvable example_env example_skill [Name ''d1'', Name ''d2''] [Name ''g1'']"
    by (simp add: resolvable_def find_resource_def example_env_def example_skill_def truthy_def
        gui_page_of_def dialog_name_of_def dialog_data_of_def)
  have p: "paired_actions example_env example_skill True [Name ''d1'', Name ''d2''] [Name ''g1'']
      = [show_page_action example_skill ''/skill/ui/g1'' ''g1'' PNone,
         speak_dialog_action ''d1'' ''d1'' True,
         speak_dialog_action ''d2'' ''d2'' True]"
    by (simp add: paired_actions_Cons_Cons paired_actions_Cons_Nil paired_actions_Nil
        show_page_for_def speak_for_def find_resource_def example_env_def example_skill_def
        truthy_def gui_page_of_def gui_data_of_def dialog_name_of_def dialog_data_of_def)
  have f: "find_resource example_env example_skill ''g1'' ''ui'' = Some ''/skill/ui/g1''"
    "render example_env ''d1'' (PDict Map.empty) = Inr ''d1''"
    "render example_env ''d2'' (PDict Map.empty) = Inr ''d2''"
    by (simp_all add: find_resource_def example_env_def example_skill_def truthy_def)
  have l: "as_list (dialog ?a) = [Name ''d1'', Name ''d2'']" "as_list (gui ?a) = [Name ''g1'']"
    by (simp_all add: as_list_def default_args_def)
  note inst = build_actions_interleave [where e = example_env and s = example_skill
      and a = ?a and er = False and path = "''/skill/ui/g1''" and ua = "''d1''"
      and ub = "''d2''"]
  from inst r l
  have n: "length (paired_actions example_env example_skill True
      [Name ''d1'', Name ''d2''] [Name ''g1'']) = 3"
    by (simp add: default_args_def)
  from inst f
  have "build_actions example_env example_skill ?a False
      = Inr [show_page_action example_skill ''/skill/ui/g1'' ''g1'' PNone,
             speak_dialog_action ''d1'' ''d1'' True,
             speak_dialog_action ''d2'' ''d2'' True,
             clear_display_action]"
    by simp
  with r p n show ?thesis by simp
qed

end
